theory Spec2Isabelle
  imports Main
begin

section \<open>JavaScript values\<close>

text \<open>
  The tool arguments arrive as parsed JSON of type \<^verbatim>\<open>unknown\<close>, and several fields are
  only cast (\<^verbatim>\<open>as boolean | undefined\<close>), never checked, so they keep whatever value
  the caller sent. Values are therefore modelled dynamically. Numbers are the integers
  (the tool schema declares every numeric argument \<^verbatim>\<open>integer\<close>); an object is the list of
  its own properties in insertion order. A string is the list of the bytes of its UTF-8
  encoding: an ASCII character, and so the newline, the quote, the hyphen and the digits,
  is one byte below 128, and the bytes of every other character are 128 or above (the
  strings considered hold no unpaired surrogate). What the runtime counts in UTF-16 code
  units (\<^verbatim>\<open>length\<close>, \<^verbatim>\<open>substring\<close>) is not computed on the bytes but taken from the runtime,
  see \<open>world\<close> below.
\<close>

datatype jsval =
    JUndefined
  | JNull
  | JBool bool
  | JNum int
  | JStr string
  | JArr "jsval list"
  | JObj "(string \<times> jsval) list"

type_synonym obj = "(string \<times> jsval) list"

text \<open>Thrown values. Every value thrown in the two source files is an \<^verbatim>\<open>Error\<close>
  (or an engine-raised subclass) carrying a message.\<close>

datatype js_error =
    Error string
  | TypeError string
  | SyntaxError string
  | RangeError string

fun message :: "js_error \<Rightarrow> string" where
  "message (Error m) = m"
| "message (TypeError m) = m"
| "message (SyntaxError m) = m"
| "message (RangeError m) = m"

text \<open>\<^verbatim>\<open>!v\<close> is \<open>\<not> truthy v\<close>.\<close>

fun truthy :: "jsval \<Rightarrow> bool" where
  "truthy JUndefined = False"
| "truthy JNull = False"
| "truthy (JBool b) = b"
| "truthy (JNum n) = (n \<noteq> 0)"
| "truthy (JStr s) = (s \<noteq> [])"
| "truthy (JArr xs) = True"
| "truthy (JObj kvs) = True"

fun typeof :: "jsval \<Rightarrow> string" where
  "typeof JUndefined = ''undefined''"
| "typeof JNull = ''object''"
| "typeof (JBool b) = ''boolean''"
| "typeof (JNum n) = ''number''"
| "typeof (JStr s) = ''string''"
| "typeof (JArr xs) = ''object''"
| "typeof (JObj kvs) = ''object''"

fun nullish :: "jsval \<Rightarrow> bool" where
  "nullish JUndefined = True"
| "nullish JNull = True"
| "nullish v = False"

text \<open>Reading a property of a value that is not nullish: an own property of an object,
  \<^verbatim>\<open>undefined\<close> otherwise. (None of the property names the source reads is defined on
  a prototype.)\<close>

fun getProp :: "jsval \<Rightarrow> string \<Rightarrow> jsval" where
  "getProp (JObj kvs) k = (case map_of kvs k of Some v \<Rightarrow> v | None \<Rightarrow> JUndefined)"
| "getProp v k = JUndefined"

text \<open>Assigning a property keeps the position of an existing key and appends a new one;
  this is also the effect of one entry of an object literal after a spread.\<close>

fun setProp :: "obj \<Rightarrow> string \<Rightarrow> jsval \<Rightarrow> obj" where
  "setProp [] k v = [(k, v)]"
| "setProp (p # ps) k v = (if fst p = k then (k, v) # ps else p # setProp ps k v)"

text \<open>\<^verbatim>\<open>a || b\<close>\<close>

definition orElse :: "jsval \<Rightarrow> jsval \<Rightarrow> jsval" where
  "orElse a b = (if truthy a then a else b)"

subsection \<open>Printing\<close>

definition digitChar :: "nat \<Rightarrow> char" where
  "digitChar n = ''0123456789abcdef'' ! n"

fun showNat :: "nat \<Rightarrow> string" where
  "showNat n = (if n < 10 then [digitChar n] else showNat (n div 10) @ [digitChar (n mod 10)])"

declare showNat.simps [simp del]

definition showInt :: "int \<Rightarrow> string" where
  "showInt i = (if i < 0 then CHR ''-'' # showNat (nat (- i)) else showNat (nat i))"

text \<open>\<^verbatim>\<open>Array.prototype.join\<close>\<close>

fun join :: "string \<Rightarrow> string list \<Rightarrow> string" where
  "join sep [] = []"
| "join sep [x] = x"
| "join sep (x # y # ys) = x @ sep @ join sep (y # ys)"

text \<open>The results of a list of evaluations made in order, or the first error.\<close>

fun inOrder :: "('e + 'a) list \<Rightarrow> 'e + 'a list" where
  "inOrder [] = Inr []"
| "inOrder (Inl e # rs) = Inl e"
| "inOrder (Inr x # rs) = (case inOrder rs of Inl e \<Rightarrow> Inl e | Inr xs \<Rightarrow> Inr (x # xs))"

text \<open>\<^verbatim>\<open>String(v)\<close>, which is also what a template literal and a property key apply. A
  value parsed from JSON holds no function, so an object that has a property
  \<^verbatim>\<open>toString\<close> of its own has no callable \<^verbatim>\<open>toString\<close>, and the \<^verbatim>\<open>valueOf\<close> it has or
  inherits yields no primitive: the conversion raises. Every other object inherits
  \<^verbatim>\<open>Object.prototype.toString\<close>. An array joins the conversions of its elements.\<close>

fun toStr :: "jsval \<Rightarrow> js_error + string" where
  "toStr JUndefined = Inr ''undefined''"
| "toStr JNull = Inr ''null''"
| "toStr (JBool b) = Inr (if b then ''true'' else ''false'')"
| "toStr (JNum n) = Inr (showInt n)"
| "toStr (JStr s) = Inr s"
| "toStr (JArr xs) =
     (case inOrder (map (\<lambda>x. if nullish x then Inr [] else toStr x) xs) of
        Inl e \<Rightarrow> Inl e
      | Inr ss \<Rightarrow> Inr (join '','' ss))"
| "toStr (JObj kvs) =
     (if map_of kvs ''toString'' \<noteq> None
      then Inl (TypeError ''Cannot convert object to primitive value'')
      else Inr ''[object Object]'')"

text \<open>The error of reading property \<open>k\<close> of \<^verbatim>\<open>undefined\<close> or \<^verbatim>\<open>null\<close>.\<close>

definition cannotRead :: "jsval \<Rightarrow> string \<Rightarrow> js_error" where
  "cannotRead v k =
     TypeError (''Cannot read properties of '' @ (if v = JNull then ''null'' else ''undefined'')
                  @ '' (reading '' @ [CHR 0x27] @ k @ [CHR 0x27] @ '')'')"

text \<open>\<^verbatim>\<open>v.k\<close> raises a \<^verbatim>\<open>TypeError\<close> on \<^verbatim>\<open>undefined\<close> and \<^verbatim>\<open>null\<close>; \<^verbatim>\<open>v?.k\<close> yields
  \<^verbatim>\<open>undefined\<close> there.\<close>

definition member :: "jsval \<Rightarrow> string \<Rightarrow> js_error + jsval" where
  "member v k =
     (if nullish v
      then Inl (cannotRead v k)
      else Inr (getProp v k))"

definition optMember :: "jsval \<Rightarrow> string \<Rightarrow> jsval" where
  "optMember v k = (if nullish v then JUndefined else getProp v k)"

subsection \<open>\<^verbatim>\<open>JSON.stringify\<close>\<close>

text \<open>\<^verbatim>\<open>QuoteJSONString\<close> of the language standard: the two-character escapes, \<^verbatim>\<open>\u00XX\<close>
  for the other control characters, every other character unchanged.\<close>

definition quoteChar :: "char \<Rightarrow> string" where
  "quoteChar c =
     (let n = (of_char c :: nat) in
      if n = 8 then [CHR 0x5C, CHR ''b'']
      else if n = 9 then [CHR 0x5C, CHR ''t'']
      else if n = 10 then [CHR 0x5C, CHR ''n'']
      else if n = 12 then [CHR 0x5C, CHR ''f'']
      else if n = 13 then [CHR 0x5C, CHR ''r'']
      else if n = 34 then [CHR 0x5C, CHR 0x22]
      else if n = 92 then [CHR 0x5C, CHR 0x5C]
      else if n < 32
        then [CHR 0x5C, CHR ''u'', CHR ''0'', CHR ''0'', digitChar (n div 16), digitChar (n mod 16)]
      else [c])"

definition quoteJSONString :: "string \<Rightarrow> string" where
  "quoteJSONString s = [CHR 0x22] @ concat (map quoteChar s) @ [CHR 0x22]"

text \<open>Without an indent argument. \<open>None\<close> is the result \<^verbatim>\<open>undefined\<close>; a property whose
  value is \<^verbatim>\<open>undefined\<close> is left out, an array element that is \<^verbatim>\<open>undefined\<close> prints as
  \<^verbatim>\<open>null\<close>.\<close>

fun stringify :: "jsval \<Rightarrow> string option" where
  "stringify JUndefined = None"
| "stringify JNull = Some ''null''"
| "stringify (JBool b) = Some (if b then ''true'' else ''false'')"
| "stringify (JNum n) = Some (showInt n)"
| "stringify (JStr s) = Some (quoteJSONString s)"
| "stringify (JArr xs) =
     Some (''['' @ join '','' (map (\<lambda>x. case stringify x of None \<Rightarrow> ''null'' | Some s \<Rightarrow> s) xs)
           @ '']'')"
| "stringify (JObj kvs) =
     Some (''{'' @ join '','' (concat (map (\<lambda>kv. case stringify (snd kv) of
                                                  None \<Rightarrow> []
                                                | Some s \<Rightarrow> [quoteJSONString (fst kv) @ '':'' @ s])
                                        kvs))
           @ ''}'')"

text \<open>\<^verbatim>\<open>JSON.stringify\<close> of an object, which always yields a string.\<close>

definition stringifyObj :: "obj \<Rightarrow> string" where
  "stringifyObj ob = (case stringify (JObj ob) of Some s \<Rightarrow> s | None \<Rightarrow> [])"

subsection \<open>Strings\<close>

text \<open>\<^verbatim>\<open>s.split(c)\<close> for a one-character separator: never empty, one more piece than
  there are separators.\<close>

fun splitOn :: "char \<Rightarrow> string \<Rightarrow> string list" where
  "splitOn c [] = [[]]"
| "splitOn c (x # xs) =
     (if x = c then [] # splitOn c xs
      else (x # hd (splitOn c xs)) # tl (splitOn c xs))"

definition newline :: char where
  "newline = CHR 0x0A"




text \<open>\<^verbatim>\<open>s.includes(t)\<close>\<close>

fun startsWith :: "string \<Rightarrow> string \<Rightarrow> bool" where
  "startsWith s [] = True"
| "startsWith [] (t # ts) = False"
| "startsWith (c # cs) (t # ts) = (c = t \<and> startsWith cs ts)"

fun strIncludes :: "string \<Rightarrow> string \<Rightarrow> bool" where
  "strIncludes [] t = (t = [])"
| "strIncludes (c # cs) t = (startsWith (c # cs) t \<or> strIncludes cs t)"

definition isDigit :: "char \<Rightarrow> bool" where
  "isDigit c = (c \<in> set ''0123456789'')"

text \<open>\<^verbatim>\<open>key.match(/-(\d+)-/)\<close>: the first capture group of the leftmost match. At a
  hyphen the digits are taken greedily; giving any of them back leaves a digit where the
  closing hyphen must be, so the longest run decides.\<close>

fun matchEpoch :: "string \<Rightarrow> string option" where
  "matchEpoch [] = None"
| "matchEpoch (c # cs) =
     (if c = CHR ''-'' \<and> takeWhile isDigit cs \<noteq> []
         \<and> startsWith (dropWhile isDigit cs) ''-''
      then Some (takeWhile isDigit cs)
      else matchEpoch cs)"

definition digitVal :: "char \<Rightarrow> nat" where
  "digitVal c = of_char c - 48"

text \<open>\<^verbatim>\<open>parseInt(ds, 10)\<close> on a string of decimal digits (exact; the source's number is
  the nearest double, the same up to sixteen digits).\<close>

definition parseInt :: "string \<Rightarrow> int" where
  "parseInt ds = int (foldl (\<lambda>acc c. 10 * acc + digitVal c) 0 ds)"


section \<open>The thought record and its validator\<close>

text \<open>The four required fields are checked at run time and typed accordingly; the five
  optional ones are unchecked casts of the input's properties.\<close>

record ThoughtData =
  thought :: string
  thoughtNumber :: int
  totalThoughts :: int
  nextThoughtNeeded :: bool
  isRevision :: jsval
  revisesThought :: jsval
  branchFromThought :: jsval
  branchId :: jsval
  needsMoreThoughts :: jsval

fun strOf :: "jsval \<Rightarrow> string" where
  "strOf (JStr s) = s"
| "strOf v = []"

fun numOf :: "jsval \<Rightarrow> int" where
  "numOf (JNum n) = n"
| "numOf v = 0"

fun boolOf :: "jsval \<Rightarrow> bool" where
  "boolOf (JBool b) = b"
| "boolOf v = False"

text \<open>\<^verbatim>\<open>validateThoughtData\<close>. The first property read raises on a nullish input; the
  projections \<open>strOf\<close>, \<open>numOf\<close>, \<open>boolOf\<close> are applied only after the matching
  \<^verbatim>\<open>typeof\<close> test has passed.\<close>

definition validateThoughtData :: "jsval \<Rightarrow> js_error + ThoughtData" where
  "validateThoughtData data =
     (case member data ''thought'' of
        Inl e \<Rightarrow> Inl e
      | Inr t \<Rightarrow>
          if \<not> truthy t \<or> typeof t \<noteq> ''string''
            then Inl (Error ''Invalid thought: must be a string'')
          else if \<not> truthy (getProp data ''thoughtNumber'')
                  \<or> typeof (getProp data ''thoughtNumber'') \<noteq> ''number''
            then Inl (Error ''Invalid thoughtNumber: must be a number'')
          else if \<not> truthy (getProp data ''totalThoughts'')
                  \<or> typeof (getProp data ''totalThoughts'') \<noteq> ''number''
            then Inl (Error ''Invalid totalThoughts: must be a number'')
          else if typeof (getProp data ''nextThoughtNeeded'') \<noteq> ''boolean''
            then Inl (Error ''Invalid nextThoughtNeeded: must be a boolean'')
          else Inr \<lparr> thought = strOf t,
                     thoughtNumber = numOf (getProp data ''thoughtNumber''),
                     totalThoughts = numOf (getProp data ''totalThoughts''),
                     nextThoughtNeeded = boolOf (getProp data ''nextThoughtNeeded''),
                     isRevision = getProp data ''isRevision'',
                     revisesThought = getProp data ''revisesThought'',
                     branchFromThought = getProp data ''branchFromThought'',
                     branchId = getProp data ''branchId'',
                     needsMoreThoughts = getProp data ''needsMoreThoughts'' \<rparr>)"


section \<open>The persistence gateway (\<^verbatim>\<open>RecallIntegration\<close>)\<close>

subsection \<open>The remote service and the runtime\<close>

text \<open>An awaited call either resolves, rejects, or is still pending when the timer that
  races it fires.\<close>

datatype 'a promise = Resolves 'a | Rejects js_error | Pending

record bucket_entry =
  addr :: string
  aliasOf :: "string option"

record object_state =
  stSize :: "nat option"
  stMetadata :: "obj option"

record remote_object =
  okey :: string
  ostate :: "object_state option"

text \<open>What one tool call observes of its surroundings: the successive readings of the
  system clock (\<open>clock w k\<close> is the \<open>k\<close>-th reading taken during the call), the random
  number \<^verbatim>\<open>Math.floor(Math.random() * 10000)\<close>, the built-in date formatting and
  \<^verbatim>\<open>JSON.parse\<close>, the string operations of the runtime that count UTF-16 code units
  (\<open>stringLength w s\<close> is \<^verbatim>\<open>s.length\<close>, \<open>substring w s n\<close> is \<^verbatim>\<open>s.substring(0, n)\<close>), and the
  answers of the bucket service. \<open>bucketGet\<close> answers with the text that \<^verbatim>\<open>TextDecoder\<close>
  reads from the object's bytes, \<open>bucketAdd\<close> is given the text that \<^verbatim>\<open>TextEncoder\<close>
  encodes. \<open>dateISO w v\<close> is \<^verbatim>\<open>new Date(v).toISOString()\<close> and \<open>dateLocale w v\<close> is
  \<^verbatim>\<open>new Date(v).toLocaleString()\<close>; either raises on some values. The calls that the
  source awaits without a timer (\<^verbatim>\<open>query\<close>, \<^verbatim>\<open>get\<close>) are taken to settle.\<close>

record world =
  clock :: "nat \<Rightarrow> nat"
  random :: nat
  isoString :: "nat \<Rightarrow> string"
  dateISO :: "jsval \<Rightarrow> js_error + string"
  dateLocale :: "jsval \<Rightarrow> js_error + string"
  jsonParse :: "string \<Rightarrow> js_error + jsval"
  stringLength :: "string \<Rightarrow> nat"
  substring :: "string \<Rightarrow> nat \<Rightarrow> string"
  bucketList :: "bucket_entry list option promise"
  bucketCreate :: "string \<Rightarrow> string option promise"
  bucketAdd :: "string option \<Rightarrow> string \<Rightarrow> string \<Rightarrow> string option promise"
  bucketQuery :: "string option \<Rightarrow> js_error + remote_object list option"
  bucketGet :: "string option \<Rightarrow> jsval \<Rightarrow> js_error + string option"

text \<open>One \<^verbatim>\<open>add\<close> call issued to the bucket service: bucket address, key, data.\<close>

type_synonym put = "string option \<times> string \<times> string"

subsection \<open>State and results\<close>

record RecallIntegration =
  bucketAddress :: "string option"
  initialized :: bool
  bucketAlias :: string
  logPrefix :: string
  currentSessionThoughts :: "obj list"

record RecallStatus =
  statusInitialized :: bool
  statusBucketAddress :: "string option"
  statusBucketAlias :: string
  statusLogPrefix :: string
  pendingThoughts :: nat

record store_result =
  txHash :: "string option"
  success :: bool
  key :: string

record RecallObject =
  objKey :: string
  objSize :: nat
  objMetadata :: "obj option"

datatype session_object =
    SessionContent jsval "jsval list" nat string
  | SessionUnparsed jsval string string

subsection \<open>Initialisation\<close>

definition withTimeout :: "'a promise \<Rightarrow> nat \<Rightarrow> string \<Rightarrow> js_error + 'a" where
  "withTimeout p timeoutMs operationName =
     (case p of
        Resolves v \<Rightarrow> Inr v
      | Rejects e \<Rightarrow> Inl e
      | Pending \<Rightarrow>
          Inl (Error (operationName @ '' operation timed out after '' @ showNat timeoutMs @ ''ms'')))"

definition getOrCreateBucket :: "world \<Rightarrow> string \<Rightarrow> string promise" where
  "getOrCreateBucket w al =
     (case bucketList w of
        Pending \<Rightarrow> Pending
      | Rejects e \<Rightarrow> Rejects e
      | Resolves buckets \<Rightarrow>
          (case (case buckets of None \<Rightarrow> None
                 | Some bs \<Rightarrow> find (\<lambda>b. aliasOf b = Some al) bs) of
             Some bucket \<Rightarrow> Resolves (addr bucket)
           | None \<Rightarrow>
               (case bucketCreate w al of
                  Pending \<Rightarrow> Pending
                | Rejects e \<Rightarrow> Rejects e
                | Resolves None \<Rightarrow> Rejects (Error (''Failed to create bucket: '' @ al))
                | Resolves (Some newBucket) \<Rightarrow> Resolves newBucket)))"

text \<open>\<^verbatim>\<open>this.bucketAddress\<close> used as a condition.\<close>

fun addressSet :: "string option \<Rightarrow> bool" where
  "addressSet None = False"
| "addressSet (Some a) = (a \<noteq> [])"

definition initializeBucket :: "world \<Rightarrow> RecallIntegration \<Rightarrow> (js_error + unit) \<times> RecallIntegration" where
  "initializeBucket w g =
     (if initialized g \<and> addressSet (bucketAddress g) then (Inr (), g)
      else (case withTimeout (getOrCreateBucket w (bucketAlias g)) 15000 ''Bucket initialization'' of
              Inl e \<Rightarrow> (Inl e, g)
            | Inr a \<Rightarrow> (Inr (), g\<lparr>bucketAddress := Some a, initialized := True\<rparr>)))"

definition ensureInitialized :: "world \<Rightarrow> RecallIntegration \<Rightarrow> (js_error + unit) \<times> RecallIntegration" where
  "ensureInitialized w g =
     (if \<not> initialized g \<or> \<not> addressSet (bucketAddress g) then initializeBucket w g
      else (Inr (), g))"

definition isInitialized :: "RecallIntegration \<Rightarrow> bool" where
  "isInitialized g = initialized g"

definition getStatusInfo :: "RecallIntegration \<Rightarrow> RecallStatus" where
  "getStatusInfo g =
     \<lparr> statusInitialized = initialized g,
       statusBucketAddress = bucketAddress g,
       statusBucketAlias = bucketAlias g,
       statusLogPrefix = logPrefix g,
       pendingThoughts = length (currentSessionThoughts g) \<rparr>"

subsection \<open>Storing a session\<close>

text \<open>\<^verbatim>\<open>xs.map((x, index) => f(index, x))\<close>\<close>

definition mapIndexed :: "(nat \<Rightarrow> 'a \<Rightarrow> 'b) \<Rightarrow> 'a list \<Rightarrow> 'b list" where
  "mapIndexed f xs = map (\<lambda>p. f (fst p) (snd p)) (enumerate 0 xs)"

definition placeholder :: "nat \<Rightarrow> string" where
  "placeholder index = ''Thought '' @ showNat (index + 1) @ '' (content missing)''"

text \<open>The map of \<^verbatim>\<open>storeSessionJSONL\<close> that fills in a missing text.\<close>

definition validatedThought :: "nat \<Rightarrow> obj \<Rightarrow> obj" where
  "validatedThought index th =
     (if \<not> truthy (getProp (JObj th) ''thought'')
      then setProp th ''thought'' (JStr (placeholder index))
      else th)"

definition jsonl :: "obj list \<Rightarrow> string" where
  "jsonl thoughts = join [newline] (map stringifyObj (mapIndexed validatedThought thoughts))"

text \<open>\<^verbatim>\<open>storeSessionJSONL\<close>; \<open>t\<close> is the number of clock readings the call has taken
  before. The third component lists the \<^verbatim>\<open>add\<close> calls issued. The answer of \<^verbatim>\<open>add\<close> is
  taken as the client types it, an object whose \<^verbatim>\<open>meta.tx\<close> may be missing (\<open>None\<close>), so
  nothing between the inner \<^verbatim>\<open>catch\<close> and the return raises and the outer \<^verbatim>\<open>catch\<close> has no
  counterpart.\<close>

definition storeSessionJSONL ::
  "world \<Rightarrow> nat \<Rightarrow> RecallIntegration
     \<Rightarrow> (js_error + store_result option) \<times> RecallIntegration \<times> put list" where
  "storeSessionJSONL w t g =
     (case ensureInitialized w g of
        (Inl e, g1) \<Rightarrow> (Inl e, g1, [])
      | (Inr u, g1) \<Rightarrow>
          if currentSessionThoughts g1 = [] then (Inr None, g1, [])
          else
            (let timestamp = clock w t;
                 k = logPrefix g1 @ showNat timestamp @ ''-session.jsonl'';
                 jsonlData = jsonl (currentSessionThoughts g1)
             in case withTimeout (bucketAdd w (bucketAddress g1) k jsonlData) 20000
                       ''Session storage'' of
                  Inl storageError \<Rightarrow>
                    (Inr (Some \<lparr> txHash = None, success = False, key = k \<rparr>), g1,
                     [(bucketAddress g1, k, jsonlData)])
                | Inr receipt \<Rightarrow>
                    (case receipt of
                       Some transactionHash \<Rightarrow>
                         (Inr (Some \<lparr> txHash = Some transactionHash, success = True, key = k \<rparr>),
                          g1\<lparr>currentSessionThoughts := []\<rparr>,
                          [(bucketAddress g1, k, jsonlData)])
                     | None \<Rightarrow>
                         (Inr (Some \<lparr> txHash = None, success = True, key = k \<rparr>),
                          g1\<lparr>currentSessionThoughts := []\<rparr>,
                          [(bucketAddress g1, k, jsonlData)]))))"

text \<open>The map of \<^verbatim>\<open>storeSession\<close>: the thought after the spread, then the four added
  properties. Element \<open>index\<close> takes clock readings \<open>2 * index\<close> and \<open>2 * index + 1\<close>.\<close>

definition enhancedThought :: "world \<Rightarrow> jsval \<Rightarrow> nat \<Rightarrow> obj \<Rightarrow> obj" where
  "enhancedThought w queryInfo index th =
     (let withText =
            (if \<not> truthy (getProp (JObj th) ''thought'')
             then setProp th ''thought'' (JStr (placeholder index))
             else setProp th ''thought'' (getProp (JObj th) ''thought''));
          withTimestamp = setProp withText ''timestamp'' (JNum (int (clock w (2 * index))));
          withStoredAt =
            setProp withTimestamp ''storedAt'' (JStr (isoString w (clock w (2 * index + 1))));
          withQuery =
            setProp withStoredAt ''query'' (orElse (optMember queryInfo ''query'') JUndefined)
      in setProp withQuery ''result'' (orElse (optMember queryInfo ''result'') JUndefined))"

definition storeSession ::
  "world \<Rightarrow> obj list \<Rightarrow> jsval \<Rightarrow> RecallIntegration
     \<Rightarrow> (js_error + store_result option) \<times> RecallIntegration \<times> put list" where
  "storeSession w thoughts queryInfo g =
     (case ensureInitialized w g of
        (Inl e, g1) \<Rightarrow> (Inl e, g1, [])
      | (Inr u, g1) \<Rightarrow>
          (let enhancedThoughts = mapIndexed (enhancedThought w queryInfo) thoughts;
               g2 = g1\<lparr>currentSessionThoughts := enhancedThoughts\<rparr>
           in case storeSessionJSONL w (2 * length thoughts) g2 of
                (Inl e, g3, puts) \<Rightarrow> (Inr None, g3, puts)
              | (Inr r, g3, puts) \<Rightarrow> (Inr r, g3, puts)))"

subsection \<open>Listing and retrieving\<close>

text \<open>\<^verbatim>\<open>Object.assign(target, source)\<close>\<close>

definition objectAssign :: "obj \<Rightarrow> obj \<Rightarrow> obj" where
  "objectAssign target source = foldl (\<lambda>acc kv. setProp acc (fst kv) (snd kv)) target source"

text \<open>The body of the map in \<^verbatim>\<open>listAllSessionObjects\<close>. With a string key and a record
  for the state nothing in it raises, so its \<^verbatim>\<open>catch\<close> has no counterpart.\<close>

definition toRecallObject :: "string \<Rightarrow> remote_object \<Rightarrow> RecallObject" where
  "toRecallObject prefix ob =
     (let k = okey ob;
          metadata0 =
            (case ostate ob of
               None \<Rightarrow> []
             | Some st \<Rightarrow>
                 (case stMetadata st of None \<Rightarrow> [] | Some stateMetadata \<Rightarrow> objectAssign [] stateMetadata));
          metadata1 =
            (if strIncludes k prefix
             then (case matchEpoch k of
                     Some digits \<Rightarrow> setProp metadata0 ''timestamp'' (JNum (parseInt digits))
                   | None \<Rightarrow> metadata0)
             else metadata0)
      in \<lparr> objKey = k,
           objSize = (case ostate ob of
                        None \<Rightarrow> 0
                      | Some st \<Rightarrow> (case stSize st of None \<Rightarrow> 0 | Some n \<Rightarrow> n)),
           objMetadata = Some metadata1 \<rparr>)"

definition listAllSessionObjects ::
  "world \<Rightarrow> RecallIntegration \<Rightarrow> (js_error + RecallObject list) \<times> RecallIntegration" where
  "listAllSessionObjects w g =
     (case ensureInitialized w g of
        (Inl e, g1) \<Rightarrow> (Inl e, g1)
      | (Inr u, g1) \<Rightarrow>
          (case bucketQuery w (bucketAddress g1) of
             Inl e \<Rightarrow> (Inr [], g1)
           | Inr None \<Rightarrow> (Inr [], g1)
           | Inr (Some objects) \<Rightarrow>
               (Inr (filter (\<lambda>ob. strIncludes (objKey ob) (logPrefix g1))
                            (map (toRecallObject (logPrefix g1)) objects)),
                g1)))"






section \<open>The session accumulator (\<^verbatim>\<open>SequentialThinkingServer\<close>)\<close>

text \<open>\<^verbatim>\<open>branches\<close> is an object used as a dictionary: its own properties in insertion
  order (the order in which \<^verbatim>\<open>Object.keys\<close> reports them, names that read as array
  indices apart), each holding the list pushed so far.\<close>

record SequentialThinkingServer =
  thoughtHistory :: "ThoughtData list"
  branches :: "(string \<times> ThoughtData list) list"
  currentQuery :: jsval
  currentSessionId :: string

text \<open>\<open>t\<close> is the number of clock readings the call has taken before.\<close>

definition generateNewSessionId :: "world \<Rightarrow> nat \<Rightarrow> SequentialThinkingServer \<Rightarrow> SequentialThinkingServer" where
  "generateNewSessionId w t s =
     s\<lparr>currentSessionId := ''session-'' @ showNat (clock w t) @ ''-'' @ showNat (random w)\<rparr>"

definition clearSession :: "world \<Rightarrow> nat \<Rightarrow> SequentialThinkingServer \<Rightarrow> SequentialThinkingServer" where
  "clearSession w t s =
     generateNewSessionId w t (s\<lparr>thoughtHistory := [], branches := [], currentQuery := JUndefined\<rparr>)"

text \<open>The state the constructor leaves.\<close>

definition newServer :: "world \<Rightarrow> SequentialThinkingServer" where
  "newServer w =
     generateNewSessionId w 0
       \<lparr> thoughtHistory = [], branches = [], currentQuery = JUndefined, currentSessionId = [] \<rparr>"

text \<open>The object that \<^verbatim>\<open>validateThoughtData\<close> builds, property by property.\<close>

definition thoughtObject :: "ThoughtData \<Rightarrow> obj" where
  "thoughtObject t =
     [(''thought'', JStr (thought t)),
      (''thoughtNumber'', JNum (thoughtNumber t)),
      (''totalThoughts'', JNum (totalThoughts t)),
      (''nextThoughtNeeded'', JBool (nextThoughtNeeded t)),
      (''isRevision'', isRevision t),
      (''revisesThought'', revisesThought t),
      (''branchFromThought'', branchFromThought t),
      (''branchId'', branchId t),
      (''needsMoreThoughts'', needsMoreThoughts t)]"

text \<open>One element of \<^verbatim>\<open>thoughtsToStore\<close>: the spread, the nine properties assigned their
  own values again (which changes nothing), and the session identifier added.\<close>

definition thoughtToStore :: "string \<Rightarrow> ThoughtData \<Rightarrow> obj" where
  "thoughtToStore sessionId t = setProp (thoughtObject t) ''sessionId'' (JStr sessionId)"

definition thoughtsToStore :: "SequentialThinkingServer \<Rightarrow> obj list" where
  "thoughtsToStore s = map (thoughtToStore (currentSessionId s)) (thoughtHistory s)"

text \<open>The second argument of the call to \<^verbatim>\<open>storeSession\<close>.\<close>

definition sessionQueryInfo :: "SequentialThinkingServer \<Rightarrow> jsval" where
  "sessionQueryInfo s =
     JObj [(''query'', orElse (currentQuery s) (JStr ''No query provided'')),
           (''sessionId'', JStr (currentSessionId s))]"

definition storeSessionToRecall ::
  "world \<Rightarrow> SequentialThinkingServer \<Rightarrow> RecallIntegration
     \<Rightarrow> store_result option \<times> RecallIntegration \<times> put list" where
  "storeSessionToRecall w s g =
     (if thoughtHistory s = [] then (None, g, [])
      else
        (case storeSession w (thoughtsToStore s) (sessionQueryInfo s) g of
           (Inl e, g1, puts) \<Rightarrow> (None, g1, puts)
         | (Inr storeResult, g1, puts) \<Rightarrow> (storeResult, g1, puts)))"

text \<open>The names every object inherits. \<^verbatim>\<open>this.branches[id]\<close> finds them although they
  are not own properties, so \<^verbatim>\<open>branches\<close> is never given an array under such a name and
  the \<^verbatim>\<open>push\<close> that follows raises.\<close>

definition objectPrototypeKeys :: "string list" where
  "objectPrototypeKeys =
     [''constructor'', ''__defineGetter__'', ''__defineSetter__'', ''hasOwnProperty'',
      ''__lookupGetter__'', ''__lookupSetter__'', ''isPrototypeOf'', ''propertyIsEnumerable'',
      ''toString'', ''valueOf'', ''__proto__'', ''toLocaleString'']"

fun pushTo :: "(string \<times> 'a list) list \<Rightarrow> string \<Rightarrow> 'a \<Rightarrow> (string \<times> 'a list) list" where
  "pushTo [] k x = []"
| "pushTo (p # ps) k x = (if fst p = k then (k, snd p @ [x]) # ps else p # pushTo ps k x)"

definition addToBranch ::
  "(string \<times> ThoughtData list) list \<Rightarrow> string \<Rightarrow> ThoughtData
     \<Rightarrow> js_error + (string \<times> ThoughtData list) list" where
  "addToBranch bs k t =
     (case map_of bs k of
        Some ts \<Rightarrow> Inr (pushTo bs k t)
      | None \<Rightarrow>
          if k \<in> set objectPrototypeKeys
          then Inl (TypeError ''this.branches[validatedInput.branchId].push is not a function'')
          else Inr (bs @ [(k, [t])]))"

text \<open>The first part of \<^verbatim>\<open>processThought\<close>, up to the branch index: validation, the
  query, the widening of \<^verbatim>\<open>totalThoughts\<close>, the push onto the history, the branch index.
  The state is returned as it stands when something raises. The query is logged with
  \<^verbatim>\<open>query.substring\<close>, which only a string has; the branch identifier is used as a
  property key, so it is converted to a string.\<close>

definition appendThought ::
  "jsval \<Rightarrow> jsval \<Rightarrow> SequentialThinkingServer
     \<Rightarrow> (js_error + ThoughtData) \<times> SequentialThinkingServer" where
  "appendThought input query s =
     (case validateThoughtData input of
        Inl e \<Rightarrow> (Inl e, s)
      | Inr validated \<Rightarrow>
          (let s1 = (if truthy query \<and> \<not> truthy (currentQuery s)
                     then s\<lparr>currentQuery := query\<rparr> else s)
           in if truthy query \<and> \<not> truthy (currentQuery s) \<and> typeof query \<noteq> ''string''
              then (Inl (TypeError ''query.substring is not a function''), s1)
              else
                (let validatedInput =
                       (if thoughtNumber validated > totalThoughts validated
                        then validated\<lparr>totalThoughts := thoughtNumber validated\<rparr>
                        else validated);
                     s2 = s1\<lparr>thoughtHistory := thoughtHistory s1 @ [validatedInput]\<rparr>
                 in if truthy (branchFromThought validatedInput) \<and> truthy (branchId validatedInput)
                    then (case toStr (branchId validatedInput) of
                            Inl e \<Rightarrow> (Inl e, s2)
                          | Inr k \<Rightarrow>
                              (case addToBranch (branches s2) k validatedInput of
                                 Inl e \<Rightarrow> (Inl e, s2)
                               | Inr bs \<Rightarrow> (Inr validatedInput, s2\<lparr>branches := bs\<rparr>)))
                    else (Inr validatedInput, s2))))"

text \<open>\<^verbatim>\<open>formatThought\<close> draws a box that is only written to the log. What is kept of it
  is the \<^verbatim>\<open>context\<close> of the header, whose template literals convert \<^verbatim>\<open>revisesThought\<close>,
  or \<^verbatim>\<open>branchFromThought\<close> and then \<^verbatim>\<open>branchId\<close>, to strings, which may raise; the colours, the
  numbers of the header and the border raise nothing (a thought so long that the border
  passes the longest string of the runtime apart).\<close>

definition formatThought :: "ThoughtData \<Rightarrow> js_error + string" where
  "formatThought thoughtData =
     (if truthy (isRevision thoughtData)
      then (case toStr (revisesThought thoughtData) of
              Inl e \<Rightarrow> Inl e
            | Inr r \<Rightarrow> Inr ('' (revising thought '' @ r @ '')''))
      else if truthy (branchFromThought thoughtData)
      then (case toStr (branchFromThought thoughtData) of
              Inl e \<Rightarrow> Inl e
            | Inr b \<Rightarrow>
                (case toStr (branchId thoughtData) of
                   Inl e \<Rightarrow> Inl e
                 | Inr i \<Rightarrow> Inr ('' (from thought '' @ b @ '', ID: '' @ i @ '')'')))
      else Inr [])"

subsection \<open>Responses\<close>

text \<open>\<^verbatim>\<open>recallInfo\<close>: with a store result, its \<^verbatim>\<open>txHash\<close>, \<^verbatim>\<open>success\<close> and \<^verbatim>\<open>key\<close>, the
  \<^verbatim>\<open>pendingTransactionCount\<close> and the \<^verbatim>\<open>viewUrl\<close>; without one, the \<^verbatim>\<open>reason\<close>,
  \<^verbatim>\<open>thoughtsInMemory\<close> and \<^verbatim>\<open>isSessionComplete\<close>. The constant members (\<^verbatim>\<open>stored\<close>,
  \<^verbatim>\<open>operation\<close>) are the constructor.\<close>

datatype recall_info =
    StoredInfo "string option" bool string nat string
  | NotStoredInfo string nat bool

record thought_response =
  respThoughtNumber :: int
  respTotalThoughts :: int
  respNextThoughtNeeded :: bool
  respBranches :: "string list"
  thoughtHistoryLength :: nat
  respThoughtHistory :: "ThoughtData list"
  recallInfo :: recall_info

record session_entry =
  fileName :: string
  createdTime :: string
  thoughtCount :: jsval
  portalLink :: "string option"

text \<open>The object that a result carries, before it is printed as the text of the single
  content item: the response to a thought; \<^verbatim>\<open>{error, status: 'failed'}\<close>; the two shapes
  of \<^verbatim>\<open>{recallStatus: ...}\<close>; the session list; a session file; a plain message.\<close>

datatype payload =
    ThoughtResponse thought_response
  | Failure string
  | RecallStatusReport bool "string option" string string
  | RecallStatusFailure string
  | SessionList "session_entry list" nat "string option"
  | SessionFile jsval session_object string
  | PlainText string

record tool_result =
  content :: payload
  isError :: bool

definition portalUrl :: "string option \<Rightarrow> string \<Rightarrow> string" where
  "portalUrl bucket path =
     ''https://portal.recall.network/buckets/''
       @ (case bucket of None \<Rightarrow> ''null'' | Some a \<Rightarrow> a) @ ''?path='' @ path"

definition failed :: "js_error \<Rightarrow> tool_result" where
  "failed e = \<lparr> content = Failure (message e), isError = True \<rparr>"

subsection \<open>\<^verbatim>\<open>processThought\<close>\<close>

text \<open>Of what \<^verbatim>\<open>processThought\<close> writes to the log, the line for the query (in
  \<open>appendThought\<close>) and the boxed thought (\<open>formatThought\<close>) can raise and are kept; the
  other lines print numbers, strings and status objects, and are left out.\<close>

text \<open>The terminal step: store, and clear the session when the store reports success.
  With \<open>n\<close> thoughts in the history the store has taken \<open>2 * n + 1\<close> clock readings.\<close>

definition finishSession ::
  "world \<Rightarrow> SequentialThinkingServer \<Rightarrow> RecallIntegration
     \<Rightarrow> store_result option \<times> SequentialThinkingServer \<times> RecallIntegration \<times> put list" where
  "finishSession w s g =
     (case storeSessionToRecall w s g of
        (None, g1, puts) \<Rightarrow> (None, s, g1, puts)
      | (Some sessionInfo, g1, puts) \<Rightarrow>
          (Some sessionInfo,
           (if success sessionInfo then clearSession w (2 * length (thoughtHistory s) + 1) s else s),
           g1, puts))"

definition buildResponse ::
  "ThoughtData \<Rightarrow> store_result option \<Rightarrow> SequentialThinkingServer \<Rightarrow> RecallIntegration
     \<Rightarrow> thought_response" where
  "buildResponse validatedInput sessionInfo s g =
     \<lparr> respThoughtNumber = thoughtNumber validatedInput,
       respTotalThoughts = totalThoughts validatedInput,
       respNextThoughtNeeded = nextThoughtNeeded validatedInput,
       respBranches = map fst (branches s),
       thoughtHistoryLength = length (thoughtHistory s),
       respThoughtHistory = thoughtHistory s,
       recallInfo =
         (case sessionInfo of
            Some info \<Rightarrow>
              StoredInfo (txHash info) (success info) (key info)
                (if isInitialized g then pendingThoughts (getStatusInfo g) else 0)
                (portalUrl (statusBucketAddress (getStatusInfo g)) (key info))
          | None \<Rightarrow>
              NotStoredInfo
                (if nextThoughtNeeded validatedInput
                 then ''Session not complete yet - storing in memory only''
                 else ''Recall storage pending or unavailable'')
                (length (thoughtHistory s))
                (\<not> nextThoughtNeeded validatedInput)) \<rparr>"

text \<open>The body of the \<^verbatim>\<open>try\<close> of \<^verbatim>\<open>processThought\<close>, up to the response object.\<close>

definition processThoughtBody ::
  "world \<Rightarrow> jsval \<Rightarrow> jsval \<Rightarrow> SequentialThinkingServer \<Rightarrow> RecallIntegration
     \<Rightarrow> (js_error + thought_response) \<times> SequentialThinkingServer \<times> RecallIntegration \<times> put list" where
  "processThoughtBody w input query s g =
     (case appendThought input query s of
        (Inl e, s1) \<Rightarrow> (Inl e, s1, g, [])
      | (Inr validatedInput, s1) \<Rightarrow>
          (case formatThought validatedInput of
             Inl e \<Rightarrow> (Inl e, s1, g, [])
           | Inr formattedThought \<Rightarrow>
               (case (if \<not> nextThoughtNeeded validatedInput then finishSession w s1 g
                      else (None, s1, g, [])) of
                  (sessionInfo, s2, g2, puts) \<Rightarrow>
                    (Inr (buildResponse validatedInput sessionInfo s2 g2), s2, g2, puts))))"

definition processThought ::
  "world \<Rightarrow> jsval \<Rightarrow> jsval \<Rightarrow> SequentialThinkingServer \<Rightarrow> RecallIntegration
     \<Rightarrow> tool_result \<times> SequentialThinkingServer \<times> RecallIntegration \<times> put list" where
  "processThought w input query s g =
     (case processThoughtBody w input query s g of
        (Inl e, s1, g1, puts) \<Rightarrow> (failed e, s1, g1, puts)
      | (Inr response, s1, g1, puts) \<Rightarrow>
          (\<lparr> content = ThoughtResponse response, isError = False \<rparr>, s1, g1, puts))"


section \<open>The tool dispatcher\<close>









definition metadataProp :: "RecallObject \<Rightarrow> string \<Rightarrow> jsval" where
  "metadataProp ob k = (case objMetadata ob of None \<Rightarrow> JUndefined | Some m \<Rightarrow> getProp (JObj m) k)"








section \<open>Notions used to state the properties\<close>

text \<open>The validator's checks as the specification words them: each required field
  present and of its type.\<close>

definition present :: "jsval \<Rightarrow> bool" where
  "present v = (v \<noteq> JUndefined)"

definition specFirstOffending :: "jsval \<Rightarrow> string option" where
  "specFirstOffending data =
     (if \<not> (present (getProp data ''thought'') \<and> typeof (getProp data ''thought'') = ''string'')
        then Some ''thought''
      else if \<not> (present (getProp data ''thoughtNumber'')
                   \<and> typeof (getProp data ''thoughtNumber'') = ''number'')
        then Some ''thoughtNumber''
      else if \<not> (present (getProp data ''totalThoughts'')
                   \<and> typeof (getProp data ''totalThoughts'') = ''number'')
        then Some ''totalThoughts''
      else if \<not> (present (getProp data ''nextThoughtNeeded'')
                   \<and> typeof (getProp data ''nextThoughtNeeded'') = ''boolean'')
        then Some ''nextThoughtNeeded''
      else None)"




section \<open>Example inputs\<close>

text \<open>A step with the four required fields only, as input and as validated; the
  session of the specification's scenario before its first step, after its second and
  after its third; the default configuration; a world in which every remote call
  succeeds, and a gateway whose bucket is resolved. The example world counts a byte for
  a code unit, which is right for the ASCII texts that the examples measure or cut.\<close>

definition stepInput :: "string \<Rightarrow> int \<Rightarrow> int \<Rightarrow> bool \<Rightarrow> jsval" where
  "stepInput text index estimate continuation =
     JObj [(''thought'', JStr text), (''thoughtNumber'', JNum index),
           (''totalThoughts'', JNum estimate), (''nextThoughtNeeded'', JBool continuation)]"

definition plainThought :: "string \<Rightarrow> int \<Rightarrow> int \<Rightarrow> bool \<Rightarrow> ThoughtData" where
  "plainThought text index estimate continuation =
     \<lparr> thought = text, thoughtNumber = index, totalThoughts = estimate,
       nextThoughtNeeded = continuation, isRevision = JUndefined, revisesThought = JUndefined,
       branchFromThought = JUndefined, branchId = JUndefined, needsMoreThoughts = JUndefined \<rparr>"


text \<open>A terminal step that revises, with a \<^verbatim>\<open>revisesThought\<close> that no template literal can
  print.\<close>

definition revisionInput :: jsval where
  "revisionInput =
     JObj [(''thought'', JStr ''C''), (''thoughtNumber'', JNum 4), (''totalThoughts'', JNum 3),
           (''nextThoughtNeeded'', JBool False), (''isRevision'', JBool True),
           (''revisesThought'', JObj [(''toString'', JNum 1)])]"

definition revisionThought :: ThoughtData where
  "revisionThought =
     \<lparr> thought = ''C'', thoughtNumber = 4, totalThoughts = 4, nextThoughtNeeded = False,
       isRevision = JBool True, revisesThought = JObj [(''toString'', JNum 1)],
       branchFromThought = JUndefined, branchId = JUndefined, needsMoreThoughts = JUndefined \<rparr>"

definition sessionAB :: SequentialThinkingServer where
  "sessionAB =
     \<lparr> thoughtHistory = [plainThought ''A'' 1 3 True, plainThought ''B'' 2 3 True],
       branches = [], currentQuery = JUndefined, currentSessionId = ''session-999-7'' \<rparr>"

definition sessionABC :: SequentialThinkingServer where
  "sessionABC =
     \<lparr> thoughtHistory = [plainThought ''A'' 1 3 True, plainThought ''B'' 2 3 True,
                         plainThought ''C'' 4 4 False],
       branches = [], currentQuery = JUndefined, currentSessionId = ''session-999-7'' \<rparr>"


definition exampleWorld :: world where
  "exampleWorld =
     \<lparr> clock = (\<lambda>k. 1000 + k),
       random = 42,
       isoString = (\<lambda>n. ''2023-11-14T22:13:20.000Z''),
       dateISO = (\<lambda>v. case v of JNum n \<Rightarrow> Inr ''2023-11-14T22:13:20.000Z''
                         | other \<Rightarrow> Inl (RangeError ''Invalid time value'')),
       dateLocale = (\<lambda>v. Inr ''11/14/2023, 10:13:20 PM''),
       jsonParse = (\<lambda>line. if line = ''{}'' then Inr (JObj [])
                            else Inl (SyntaxError ''Unexpected token'')),
       stringLength = length,
       substring = (\<lambda>s n. take n s),
       bucketList = Resolves (Some [\<lparr> addr = ''0xb1'', aliasOf = Some ''logs'' \<rparr>]),
       bucketCreate = (\<lambda>al. Resolves None),
       bucketAdd = (\<lambda>bucket k bytes. Resolves (Some ''0xfeed'')),
       bucketQuery = (\<lambda>bucket. Inr (Some [])),
       bucketGet = (\<lambda>bucket k. Inr None) \<rparr>"

definition exampleGateway :: RecallIntegration where
  "exampleGateway =
     \<lparr> bucketAddress = Some ''0xb1'', initialized = True, bucketAlias = ''logs'',
       logPrefix = ''st-'', currentSessionThoughts = [] \<rparr>"

text \<open>The example world with a write that never settles, and with a write that is
  accepted without a receipt.\<close>

definition stalledWorld :: world where
  "stalledWorld = exampleWorld\<lparr>bucketAdd := (\<lambda>bucket k bytes. Pending)\<rparr>"

definition unconfirmedWorld :: world where
  "unconfirmedWorld = exampleWorld\<lparr>bucketAdd := (\<lambda>bucket k bytes. Resolves None)\<rparr>"

text \<open>The example world whose bucket holds one session object that already carries a
  time stamp in its metadata, and one object of another kind.\<close>

definition stampedWorld :: world where
  "stampedWorld =
     exampleWorld\<lparr>bucketQuery := (\<lambda>bucket.
        Inr (Some [\<lparr> okey = ''st-1700-session.jsonl'',
                     ostate = Some \<lparr> stSize = Some 10,
                                     stMetadata = Some [(''timestamp'', JNum 5)] \<rparr> \<rparr>,
                   \<lparr> okey = ''notes.txt'', ostate = None \<rparr>]))\<rparr>"






text \<open>The example worlds whose bucket service is unreachable and whose bucket service
  does not answer, and a gateway that has not resolved its bucket.\<close>

definition offlineWorld :: world where
  "offlineWorld = exampleWorld\<lparr>bucketList := Rejects (Error ''fetch failed'')\<rparr>"

definition hangingWorld :: world where
  "hangingWorld = exampleWorld\<lparr>bucketList := Pending\<rparr>"

definition coldGateway :: RecallIntegration where
  "coldGateway = exampleGateway\<lparr>bucketAddress := None, initialized := False\<rparr>"

section \<open>Properties\<close>

subsection \<open>Printing and splitting\<close>

lemma showNat_small: "n < 10 \<Longrightarrow> showNat n = [digitChar n]"
  by (simp add: showNat.simps)

lemma showNat_big: "\<not> n < 10 \<Longrightarrow> showNat n = showNat (n div 10) @ [digitChar (n mod 10)]"
  by (subst showNat.simps) simp

lemma digitChar_not_newline: "n < 16 \<Longrightarrow> digitChar n \<noteq> newline"
proof -
  assume "n < 16"
  then have "n \<in> set [0..<16]" by simp
  then show ?thesis
    unfolding digitChar_def newline_def by (simp add: upt_rec) (elim disjE; simp)
qed

lemma showNat_no_newline: "newline \<notin> set (showNat n)"
proof (induction n rule: showNat.induct)
  case (1 n)
  show ?case
  proof (cases "n < 10")
    case True
    then show ?thesis using digitChar_not_newline [of n] by (simp add: showNat_small)
  next
    case False
    moreover have "digitChar (n mod 10) \<noteq> newline" by (rule digitChar_not_newline) simp
    ultimately show ?thesis using 1 by (simp add: showNat_big)
  qed
qed

lemma showInt_no_newline: "newline \<notin> set (showInt i)"
  using showNat_no_newline by (simp add: showInt_def newline_def)

lemma quoteChar_no_newline: "newline \<notin> set (quoteChar c)"
proof -
  have "digitChar (of_char c div 16) \<noteq> newline" if "(of_char c :: nat) < 32"
    by (rule digitChar_not_newline) (use that in simp)
  moreover have "digitChar (of_char c mod 16) \<noteq> newline"
    by (rule digitChar_not_newline) simp
  moreover have "c \<noteq> newline" if "(of_char c :: nat) \<noteq> 10"
    using that by (auto simp: newline_def)
  ultimately show ?thesis
    by (auto simp: quoteChar_def Let_def newline_def)
qed

lemma quoteJSONString_no_newline: "newline \<notin> set (quoteJSONString s)"
  using quoteChar_no_newline by (auto simp: quoteJSONString_def newline_def)

lemma join_no_newline:
  "newline \<notin> set sep \<Longrightarrow> (\<forall>l \<in> set ls. newline \<notin> set l) \<Longrightarrow> newline \<notin> set (join sep ls)"
  by (induction sep ls rule: join.induct) auto

lemma stringify_no_newline: "stringify v = Some s \<Longrightarrow> newline \<notin> set s"
proof (induction v arbitrary: s)
  case (JArr xs)
  have "newline \<notin> set (join '','' (map (\<lambda>x. case stringify x of None \<Rightarrow> ''null'' | Some s \<Rightarrow> s) xs))"
  proof (rule join_no_newline)
    show "newline \<notin> set '',''" by (simp add: newline_def)
    show "\<forall>l\<in>set (map (\<lambda>x. case stringify x of None \<Rightarrow> ''null'' | Some s \<Rightarrow> s) xs). newline \<notin> set l"
      using JArr.IH by (auto simp: newline_def split: option.splits)
  qed
  with JArr.prems show ?case by (auto simp: newline_def)
next
  case (JObj kvs)
  have "newline \<notin> set (join '','' (concat (map (\<lambda>kv. case stringify (snd kv) of None \<Rightarrow> []
          | Some s \<Rightarrow> [quoteJSONString (fst kv) @ '':'' @ s]) kvs)))"
  proof (rule join_no_newline)
    show "newline \<notin> set '',''" by (simp add: newline_def)
    show "\<forall>l\<in>set (concat (map (\<lambda>kv. case stringify (snd kv) of None \<Rightarrow> []
          | Some s \<Rightarrow> [quoteJSONString (fst kv) @ '':'' @ s]) kvs)). newline \<notin> set l"
    proof
      fix l assume "l \<in> set (concat (map (\<lambda>kv. case stringify (snd kv) of None \<Rightarrow> []
          | Some s \<Rightarrow> [quoteJSONString (fst kv) @ '':'' @ s]) kvs))"
      then obtain kv where kv0: "kv \<in> set kvs"
          "l \<in> set (case stringify (snd kv) of None \<Rightarrow> []
                       | Some s \<Rightarrow> [quoteJSONString (fst kv) @ '':'' @ s])"
        by auto
      then obtain s where kv: "kv \<in> set kvs" "stringify (snd kv) = Some s"
          "l = quoteJSONString (fst kv) @ '':'' @ s"
        by (cases "stringify (snd kv)") auto
      have "snd kv \<in> Basic_BNFs.snds kv" by (cases kv) simp
      with JObj.IH kv have "newline \<notin> set s" by blast
      with kv quoteJSONString_no_newline show "newline \<notin> set l" by (simp add: newline_def)
    qed
  qed
  with JObj.prems show ?case by (auto simp: newline_def)
qed (auto simp: newline_def showInt_no_newline [unfolded newline_def] quoteJSONString_no_newline [unfolded newline_def])

lemma stringifyObj_no_newline: "newline \<notin> set (stringifyObj ob)"
  using stringify_no_newline [of "JObj ob"] by (simp add: stringifyObj_def)

lemma splitOn_no_sep: "c \<notin> set l \<Longrightarrow> splitOn c l = [l]"
  by (induction l) auto

lemma splitOn_append: "c \<notin> set l \<Longrightarrow> splitOn c (l @ c # rest) = l # splitOn c rest"
  by (induction l) auto

lemma splitOn_join:
  "ls \<noteq> [] \<Longrightarrow> (\<forall>l \<in> set ls. c \<notin> set l) \<Longrightarrow> splitOn c (join [c] ls) = ls"
  by (induction "[c]" ls rule: join.induct) (auto simp: splitOn_no_sep splitOn_append)

lemma length_mapIndexed: "length (mapIndexed f xs) = length xs"
  by (simp add: mapIndexed_def)

lemma nth_mapIndexed: "i < length xs \<Longrightarrow> mapIndexed f xs ! i = f i (xs ! i)"
  by (simp add: mapIndexed_def nth_enumerate_eq)

lemma mapIndexed_eq_Nil: "mapIndexed f xs = [] \<longleftrightarrow> xs = []"
  by (metis length_mapIndexed length_0_conv)

lemma getProp_setProp_same: "getProp (JObj (setProp ob k v)) k = v"
  by (induction ob) auto


lemma splitOn_jsonl:
  "thoughts \<noteq> [] \<Longrightarrow>
   splitOn newline (jsonl thoughts) = map stringifyObj (mapIndexed validatedThought thoughts)"
  unfolding jsonl_def
  by (rule splitOn_join) (auto simp: mapIndexed_eq_Nil stringifyObj_no_newline)

subsection \<open>The validator\<close>

lemma truthy_string: "truthy v \<and> typeof v = ''string'' \<longleftrightarrow> (\<exists>s. v = JStr s \<and> s \<noteq> [])"
  by (cases v) auto

lemma truthy_number: "truthy v \<and> typeof v = ''number'' \<longleftrightarrow> (\<exists>n. v = JNum n \<and> n \<noteq> 0)"
  by (cases v) auto

lemma typeof_boolean: "typeof v = ''boolean'' \<longleftrightarrow> (\<exists>b. v = JBool b)"
  by (cases v) auto

text \<open>
  C8, as amended. For an object as input the validator checks, in this order, that
  \<^verbatim>\<open>thought\<close> is a non-empty string, that \<^verbatim>\<open>thoughtNumber\<close> is a number other than 0,
  that \<^verbatim>\<open>totalThoughts\<close> is a number other than 0, and that \<^verbatim>\<open>nextThoughtNeeded\<close> is a
  boolean; it fails with the message naming the first field that does not pass, and
  otherwise returns the four checked values together with the five optional properties
  exactly as the input has them. It is a function of its input alone.
\<close>

theorem validateThoughtData_first_offending:
  "validateThoughtData (JObj kvs) =
     (if \<not> (\<exists>s. getProp (JObj kvs) ''thought'' = JStr s \<and> s \<noteq> [])
        then Inl (Error ''Invalid thought: must be a string'')
      else if \<not> (\<exists>n. getProp (JObj kvs) ''thoughtNumber'' = JNum n \<and> n \<noteq> 0)
        then Inl (Error ''Invalid thoughtNumber: must be a number'')
      else if \<not> (\<exists>n. getProp (JObj kvs) ''totalThoughts'' = JNum n \<and> n \<noteq> 0)
        then Inl (Error ''Invalid totalThoughts: must be a number'')
      else if \<not> (\<exists>b. getProp (JObj kvs) ''nextThoughtNeeded'' = JBool b)
        then Inl (Error ''Invalid nextThoughtNeeded: must be a boolean'')
      else Inr \<lparr> thought = strOf (getProp (JObj kvs) ''thought''),
                 thoughtNumber = numOf (getProp (JObj kvs) ''thoughtNumber''),
                 totalThoughts = numOf (getProp (JObj kvs) ''totalThoughts''),
                 nextThoughtNeeded = boolOf (getProp (JObj kvs) ''nextThoughtNeeded''),
                 isRevision = getProp (JObj kvs) ''isRevision'',
                 revisesThought = getProp (JObj kvs) ''revisesThought'',
                 branchFromThought = getProp (JObj kvs) ''branchFromThought'',
                 branchId = getProp (JObj kvs) ''branchId'',
                 needsMoreThoughts = getProp (JObj kvs) ''needsMoreThoughts'' \<rparr>)"
proof -
  have s: "(\<not> truthy v \<or> typeof v \<noteq> ''string'') = (\<not> (\<exists>s. v = JStr s \<and> s \<noteq> []))" for v
    using truthy_string [of v] by blast
  have n: "(\<not> truthy v \<or> typeof v \<noteq> ''number'') = (\<not> (\<exists>n. v = JNum n \<and> n \<noteq> 0))" for v
    using truthy_number [of v] by blast
  have b: "(typeof v \<noteq> ''boolean'') = (\<not> (\<exists>b. v = JBool b))" for v
    using typeof_boolean [of v] by blast
  show ?thesis
    unfolding validateThoughtData_def member_def s n b by simp
qed

theorem validateThoughtData_first_offending_witness:
  "validateThoughtData (stepInput ''A'' 1 3 True) = Inr (plainThought ''A'' 1 3 True)
   \<and> validateThoughtData (JObj [(''thought'', JStr ''A''), (''totalThoughts'', JNum 3)])
       = Inl (Error ''Invalid thoughtNumber: must be a number'')"
  unfolding stepInput_def plainThought_def
  by (auto simp add: validateThoughtData_first_offending)

text \<open>
  C8 as stated fails: an empty text and an index of 0 are present and of the right type,
  so the checks the claim lists find no offending field, yet the validator rejects both.
\<close>

theorem validateThoughtData_spec_order_counterexample:
  "specFirstOffending (stepInput '''' 1 1 True) = None
   \<and> validateThoughtData (stepInput '''' 1 1 True) = Inl (Error ''Invalid thought: must be a string'')
   \<and> specFirstOffending (stepInput ''A'' 0 1 True) = None
   \<and> validateThoughtData (stepInput ''A'' 0 1 True)
       = Inl (Error ''Invalid thoughtNumber: must be a number'')"
  by (simp add: specFirstOffending_def present_def stepInput_def validateThoughtData_def member_def)

subsection \<open>Accumulating a step\<close>

text \<open>
  C2. A validated step that is appended to the session is appended with its
  \<^verbatim>\<open>totalThoughts\<close> raised to its \<^verbatim>\<open>thoughtNumber\<close> when the number exceeds the total, and
  with its \<^verbatim>\<open>totalThoughts\<close> unchanged when the number is at most the total; no other
  field of the step changes.
\<close>

theorem appendThought_widens_total:
  assumes "validateThoughtData input = Inr d"
    and "appendThought input query s = (Inr v, s')"
  shows "thoughtHistory s' = thoughtHistory s @ [v]
         \<and> (totalThoughts d < thoughtNumber d \<longrightarrow> totalThoughts v = thoughtNumber d)
         \<and> (thoughtNumber d \<le> totalThoughts d \<longrightarrow> totalThoughts v = totalThoughts d)
         \<and> v\<lparr>totalThoughts := totalThoughts d\<rparr> = d"
  using assms
  by (auto simp: appendThought_def Let_def split: if_splits sum.splits)

theorem appendThought_widens_total_witness:
  "thoughtHistory (snd (appendThought (stepInput ''C'' 4 3 False) JUndefined sessionAB))
     = [plainThought ''A'' 1 3 True, plainThought ''B'' 2 3 True, plainThought ''C'' 4 4 False]
   \<and> thoughtHistory (snd (appendThought (stepInput ''B'' 2 3 True) JUndefined sessionAB))
     = [plainThought ''A'' 1 3 True, plainThought ''B'' 2 3 True, plainThought ''B'' 2 3 True]"
proof -
  have vC: "validateThoughtData (stepInput ''C'' 4 3 False) = Inr (plainThought ''C'' 4 3 False)"
    by (simp add: validateThoughtData_def member_def stepInput_def plainThought_def)
  have vB: "validateThoughtData (stepInput ''B'' 2 3 True) = Inr (plainThought ''B'' 2 3 True)"
    by (simp add: validateThoughtData_def member_def stepInput_def plainThought_def)
  obtain v s' where aC: "appendThought (stepInput ''C'' 4 3 False) JUndefined sessionAB = (Inr v, s')"
    by (simp add: appendThought_def vC plainThought_def Let_def)
  obtain u s'' where aB: "appendThought (stepInput ''B'' 2 3 True) JUndefined sessionAB = (Inr u, s'')"
    by (simp add: appendThought_def vB plainThought_def Let_def)
  from appendThought_widens_total [OF vC aC]
  have "thoughtHistory s' = thoughtHistory sessionAB @ [v]" "totalThoughts v = 4"
       "v\<lparr>totalThoughts := 3\<rparr> = plainThought ''C'' 4 3 False"
    by (simp_all add: plainThought_def)
  moreover from this have "v = plainThought ''C'' 4 4 False"
    by (cases v) (simp add: plainThought_def)
  moreover from appendThought_widens_total [OF vB aB]
  have "thoughtHistory s'' = thoughtHistory sessionAB @ [u]" "totalThoughts u = 3"
       "u\<lparr>totalThoughts := 3\<rparr> = plainThought ''B'' 2 3 True"
    by (simp_all add: plainThought_def)
  moreover from this have "u = plainThought ''B'' 2 3 True"
    by (cases u) (simp add: plainThought_def)
  ultimately show ?thesis
    unfolding aC aB by (simp add: sessionAB_def)
qed

subsection \<open>The gateway once its bucket is resolved\<close>

lemma ensureInitialized_cases:
  assumes "ensureInitialized w g = (Inr u, g1)"
  shows "g1 = g \<and> initialized g \<and> addressSet (bucketAddress g)
         \<or> \<not> (initialized g \<and> addressSet (bucketAddress g))
           \<and> (\<exists>a. withTimeout (getOrCreateBucket w (bucketAlias g)) 15000 ''Bucket initialization''
                      = Inr a
                    \<and> g1 = g\<lparr>bucketAddress := Some a, initialized := True\<rparr>)"
  using assms
  by (auto simp: ensureInitialized_def initializeBucket_def split: if_splits sum.splits)

lemma ensureInitialized_frame:
  assumes "ensureInitialized w g = (r, g1)"
  shows "currentSessionThoughts g1 = currentSessionThoughts g \<and> logPrefix g1 = logPrefix g
         \<and> bucketAlias g1 = bucketAlias g"
  using assms
  by (auto simp: ensureInitialized_def initializeBucket_def split: if_splits sum.splits)

lemma ensureInitialized_again:
  assumes "ensureInitialized w g = (Inr u, g1)"
  shows "ensureInitialized w (g1\<lparr>currentSessionThoughts := x\<rparr>)
           = (Inr (), g1\<lparr>currentSessionThoughts := x\<rparr>)"
  using ensureInitialized_cases [OF assms]
  by (auto simp: ensureInitialized_def initializeBucket_def)

lemma ensureInitialized_buffer:
  assumes "ensureInitialized w g = (Inr u, g1)"
  shows "ensureInitialized w (g\<lparr>currentSessionThoughts := x\<rparr>)
           = (Inr (), g1\<lparr>currentSessionThoughts := x\<rparr>)"
  using ensureInitialized_cases [OF assms]
  by (auto simp: ensureInitialized_def initializeBucket_def)

lemma storeSessionJSONL_ready:
  assumes "ensureInitialized w g = (Inr u, g1)"
  shows "storeSessionJSONL w t g =
     (if currentSessionThoughts g = [] then (Inr None, g1, [])
      else (case bucketAdd w (bucketAddress g1)
                   (logPrefix g @ showNat (clock w t) @ ''-session.jsonl'')
                   (jsonl (currentSessionThoughts g)) of
              Resolves receipt \<Rightarrow>
                (Inr (Some \<lparr> txHash = receipt, success = True,
                              key = logPrefix g @ showNat (clock w t) @ ''-session.jsonl'' \<rparr>),
                 g1\<lparr>currentSessionThoughts := []\<rparr>,
                 [(bucketAddress g1, logPrefix g @ showNat (clock w t) @ ''-session.jsonl'',
                   jsonl (currentSessionThoughts g))])
            | Rejects e \<Rightarrow>
                (Inr (Some \<lparr> txHash = None, success = False,
                              key = logPrefix g @ showNat (clock w t) @ ''-session.jsonl'' \<rparr>),
                 g1,
                 [(bucketAddress g1, logPrefix g @ showNat (clock w t) @ ''-session.jsonl'',
                   jsonl (currentSessionThoughts g))])
            | Pending \<Rightarrow>
                (Inr (Some \<lparr> txHash = None, success = False,
                              key = logPrefix g @ showNat (clock w t) @ ''-session.jsonl'' \<rparr>),
                 g1,
                 [(bucketAddress g1, logPrefix g @ showNat (clock w t) @ ''-session.jsonl'',
                   jsonl (currentSessionThoughts g))])))"
  using ensureInitialized_frame [OF assms]
  by (simp add: storeSessionJSONL_def assms withTimeout_def Let_def
           split: promise.splits option.splits)

lemma storeSession_ready:
  assumes "ensureInitialized w g = (Inr u, g1)"
  shows "storeSession w thoughts queryInfo g =
     (if thoughts = [] then (Inr None, g1\<lparr>currentSessionThoughts := []\<rparr>, [])
      else (case bucketAdd w (bucketAddress g1)
                   (logPrefix g @ showNat (clock w (2 * length thoughts)) @ ''-session.jsonl'')
                   (jsonl (mapIndexed (enhancedThought w queryInfo) thoughts)) of
              Resolves receipt \<Rightarrow>
                (Inr (Some \<lparr> txHash = receipt, success = True,
                              key = logPrefix g @ showNat (clock w (2 * length thoughts))
                                      @ ''-session.jsonl'' \<rparr>),
                 g1\<lparr>currentSessionThoughts := []\<rparr>,
                 [(bucketAddress g1,
                   logPrefix g @ showNat (clock w (2 * length thoughts)) @ ''-session.jsonl'',
                   jsonl (mapIndexed (enhancedThought w queryInfo) thoughts))])
            | Rejects e \<Rightarrow>
                (Inr (Some \<lparr> txHash = None, success = False,
                              key = logPrefix g @ showNat (clock w (2 * length thoughts))
                                      @ ''-session.jsonl'' \<rparr>),
                 g1\<lparr>currentSessionThoughts := mapIndexed (enhancedThought w queryInfo) thoughts\<rparr>,
                 [(bucketAddress g1,
                   logPrefix g @ showNat (clock w (2 * length thoughts)) @ ''-session.jsonl'',
                   jsonl (mapIndexed (enhancedThought w queryInfo) thoughts))])
            | Pending \<Rightarrow>
                (Inr (Some \<lparr> txHash = None, success = False,
                              key = logPrefix g @ showNat (clock w (2 * length thoughts))
                                      @ ''-session.jsonl'' \<rparr>),
                 g1\<lparr>currentSessionThoughts := mapIndexed (enhancedThought w queryInfo) thoughts\<rparr>,
                 [(bucketAddress g1,
                   logPrefix g @ showNat (clock w (2 * length thoughts)) @ ''-session.jsonl'',
                   jsonl (mapIndexed (enhancedThought w queryInfo) thoughts))])))"
proof -
  let ?batch = "mapIndexed (enhancedThought w queryInfo) thoughts"
  have again: "ensureInitialized w (g1\<lparr>currentSessionThoughts := ?batch\<rparr>)
                 = (Inr (), g1\<lparr>currentSessionThoughts := ?batch\<rparr>)"
    by (rule ensureInitialized_again [OF assms])
  have frame: "logPrefix g1 = logPrefix g"
    using ensureInitialized_frame [OF assms] by simp
  show ?thesis
    unfolding storeSession_def assms
    by (simp add: Let_def storeSessionJSONL_ready [OF again] frame mapIndexed_eq_Nil
             split: promise.splits)
qed

lemma exampleGateway_ready: "ensureInitialized w exampleGateway = (Inr (), exampleGateway)"
  by (simp add: ensureInitialized_def exampleGateway_def)

lemma exampleGateway_buffer_ready:
  "ensureInitialized w (exampleGateway\<lparr>currentSessionThoughts := x\<rparr>)
     = (Inr (), exampleGateway\<lparr>currentSessionThoughts := x\<rparr>)"
  by (simp add: ensureInitialized_def exampleGateway_def)

lemmas showNat_eval = showNat_small showNat_big digitChar_def

subsection \<open>The serializer\<close>

text \<open>
  C9. Whenever \<^verbatim>\<open>storeSessionJSONL\<close> hands data to the bucket service, the data split at
  the newlines has exactly one line per buffered thought; line \<open>i\<close> is the JSON text of
  thought \<open>i\<close> itself when its \<^verbatim>\<open>thought\<close> property is truthy, and otherwise of that
  thought with the property set to the placeholder naming position \<open>i + 1\<close>.
\<close>

theorem storeSessionJSONL_one_line_per_thought:
  assumes "storeSessionJSONL w t g = (r, g', puts)" and "(a, k, ndjson) \<in> set puts"
  shows "length (splitOn newline ndjson) = length (currentSessionThoughts g)
         \<and> (\<forall>i < length (currentSessionThoughts g).
               splitOn newline ndjson ! i =
                 stringifyObj
                   (if truthy (getProp (JObj (currentSessionThoughts g ! i)) ''thought'')
                    then currentSessionThoughts g ! i
                    else setProp (currentSessionThoughts g ! i) ''thought''
                           (JStr (''Thought '' @ showNat (i + 1) @ '' (content missing)''))))"
proof -
  obtain e g1 where init: "ensureInitialized w g = (e, g1)"
    by (cases "ensureInitialized w g")
  from assms init have ready: "e = Inr ()"
    by (cases e) (auto simp: storeSessionJSONL_def)
  have rd: "ensureInitialized w g = (Inr (), g1)"
    using init ready by simp
  from assms have nonempty: "currentSessionThoughts g \<noteq> []"
    by (auto simp: storeSessionJSONL_ready [OF rd])
  from assms nonempty have data: "ndjson = jsonl (currentSessionThoughts g)"
    by (auto simp: storeSessionJSONL_ready [OF rd] split: promise.splits)
  show ?thesis
    unfolding data splitOn_jsonl [OF nonempty]
    by (simp add: length_mapIndexed nth_mapIndexed validatedThought_def placeholder_def)
qed

theorem storeSessionJSONL_one_line_per_thought_witness:
  "length (splitOn newline
      (jsonl [[(''thought'', JStr ''A'')], [(''thought'', JStr [])], [(''thoughtNumber'', JNum 3)]]))
     = 3
   \<and> splitOn newline
        (jsonl [[(''thought'', JStr ''A'')], [(''thought'', JStr [])], [(''thoughtNumber'', JNum 3)]]) ! 1
     = stringifyObj [(''thought'', JStr ''Thought 2 (content missing)'')]"
proof -
  let ?buf = "[[(''thought'', JStr ''A'')], [(''thought'', JStr [])], [(''thoughtNumber'', JNum 3)]]"
  let ?g = "exampleGateway\<lparr>currentSessionThoughts := ?buf\<rparr>"
  have run: "storeSessionJSONL exampleWorld 0 ?g =
               (Inr (Some \<lparr> txHash = Some ''0xfeed'', success = True, key = ''st-1000-session.jsonl'' \<rparr>),
                ?g\<lparr>currentSessionThoughts := []\<rparr>,
                [(Some ''0xb1'', ''st-1000-session.jsonl'', jsonl ?buf)])"
    by (subst storeSessionJSONL_ready [OF exampleGateway_buffer_ready])
       (simp add: exampleWorld_def exampleGateway_def showNat_eval)
  have "length (splitOn newline (jsonl ?buf)) = length (currentSessionThoughts ?g) \<and>
        (\<forall>i < length (currentSessionThoughts ?g).
               splitOn newline (jsonl ?buf) ! i =
                 stringifyObj
                   (if truthy (getProp (JObj (currentSessionThoughts ?g ! i)) ''thought'')
                    then currentSessionThoughts ?g ! i
                    else setProp (currentSessionThoughts ?g ! i) ''thought''
                           (JStr (''Thought '' @ showNat (i + 1) @ '' (content missing)''))))"
    by (rule storeSessionJSONL_one_line_per_thought [OF run]) simp
  then have len: "length (splitOn newline (jsonl ?buf)) = 3"
    and nth: "splitOn newline (jsonl ?buf) ! 1 =
                 stringifyObj
                   (if truthy (getProp (JObj (?buf ! 1)) ''thought'')
                    then ?buf ! 1
                    else setProp (?buf ! 1) ''thought''
                           (JStr (''Thought '' @ showNat (1 + 1) @ '' (content missing)'')))"
    by simp_all
  from len nth show ?thesis
    by (simp add: showNat_eval)
qed


subsection \<open>Storing\<close>

text \<open>
  C4. With the bucket resolved, storing a non-empty batch never raises: when the write is
  rejected or has not settled within its time limit the result is
  \<^verbatim>\<open>{success: false, key}\<close> with the derived key, and when the write is accepted without
  a transaction receipt the result is \<^verbatim>\<open>{success: true, key}\<close> with no \<^verbatim>\<open>txHash\<close>.
\<close>

theorem storeSession_reports_write_outcome:
  assumes "ensureInitialized w g = (Inr u, g1)" and "thoughts \<noteq> []"
  shows "(bucketAdd w (bucketAddress g1)
            (logPrefix g @ showNat (clock w (2 * length thoughts)) @ ''-session.jsonl'')
            (jsonl (mapIndexed (enhancedThought w queryInfo) thoughts)) = Pending
          \<or> (\<exists>e. bucketAdd w (bucketAddress g1)
                 (logPrefix g @ showNat (clock w (2 * length thoughts)) @ ''-session.jsonl'')
                 (jsonl (mapIndexed (enhancedThought w queryInfo) thoughts)) = Rejects e)
          \<longrightarrow> fst (storeSession w thoughts queryInfo g)
                = Inr (Some \<lparr> txHash = None, success = False,
                               key = logPrefix g @ showNat (clock w (2 * length thoughts))
                                       @ ''-session.jsonl'' \<rparr>))
         \<and> (bucketAdd w (bucketAddress g1)
               (logPrefix g @ showNat (clock w (2 * length thoughts)) @ ''-session.jsonl'')
               (jsonl (mapIndexed (enhancedThought w queryInfo) thoughts)) = Resolves None
            \<longrightarrow> fst (storeSession w thoughts queryInfo g)
                  = Inr (Some \<lparr> txHash = None, success = True,
                                 key = logPrefix g @ showNat (clock w (2 * length thoughts))
                                         @ ''-session.jsonl'' \<rparr>))"
  using assms(2) by (auto simp: storeSession_ready [OF assms(1)])

theorem storeSession_reports_write_outcome_witness:
  "fst (storeSession stalledWorld [[(''thought'', JStr ''A'')]] JUndefined exampleGateway)
     = Inr (Some \<lparr> txHash = None, success = False, key = ''st-1002-session.jsonl'' \<rparr>)
   \<and> fst (storeSession unconfirmedWorld [[(''thought'', JStr ''A'')]] JUndefined exampleGateway)
     = Inr (Some \<lparr> txHash = None, success = True, key = ''st-1002-session.jsonl'' \<rparr>)"
proof -
  have ne: "[[(''thought'', JStr ''A'')]] \<noteq> ([] :: obj list)" by simp
  have k: "logPrefix exampleGateway @ showNat (clock stalledWorld (2 * length [[(''thought'', JStr ''A'')]]))
             @ ''-session.jsonl'' = ''st-1002-session.jsonl''"
          "logPrefix exampleGateway @ showNat (clock unconfirmedWorld (2 * length [[(''thought'', JStr ''A'')]]))
             @ ''-session.jsonl'' = ''st-1002-session.jsonl''"
    by (simp_all add: exampleGateway_def stalledWorld_def unconfirmedWorld_def exampleWorld_def
                      showNat_eval)
  have p: "bucketAdd stalledWorld b kk d = Pending"
          "bucketAdd unconfirmedWorld b kk d = Resolves None" for b kk d
    by (simp_all add: stalledWorld_def unconfirmedWorld_def exampleWorld_def)
  from storeSession_reports_write_outcome [OF exampleGateway_ready ne, of stalledWorld JUndefined]
       storeSession_reports_write_outcome [OF exampleGateway_ready ne, of unconfirmedWorld JUndefined]
  show ?thesis
    unfolding k p by simp
qed

lemma ensureInitialized_fails:
  assumes "ensureInitialized w g = (Inl e, g1)"
  shows "g1 = g"
  using assms
  by (auto simp: ensureInitialized_def initializeBucket_def split: if_splits sum.splits)

lemma mapIndexed_single: "mapIndexed f [x] = [f 0 x]"
  by (simp add: mapIndexed_def enumerate_eq_zip)

lemma coldGateway_offline:
  "ensureInitialized offlineWorld (coldGateway\<lparr>currentSessionThoughts := x\<rparr>)
     = (Inl (Error ''fetch failed''), coldGateway\<lparr>currentSessionThoughts := x\<rparr>)"
  by (simp add: ensureInitialized_def initializeBucket_def withTimeout_def getOrCreateBucket_def
                offlineWorld_def exampleWorld_def coldGateway_def exampleGateway_def)

text \<open>
  C10 as stated fails: the bucket service is unreachable when a gateway that has not
  resolved its bucket is given a batch. The call raises, nothing is written, and the
  buffer still holds the thought that was pending before, not the incoming batch.
\<close>

theorem storeSession_keeps_buffer_counterexample:
  "storeSession offlineWorld [[(''thought'', JStr ''A'')]] JUndefined
     (coldGateway\<lparr>currentSessionThoughts := [[(''thought'', JStr ''old'')]]\<rparr>)
     = (Inl (Error ''fetch failed''),
        coldGateway\<lparr>currentSessionThoughts := [[(''thought'', JStr ''old'')]]\<rparr>, [])
   \<and> currentSessionThoughts
       (fst (snd (storeSession offlineWorld [[(''thought'', JStr ''A'')]] JUndefined
          (coldGateway\<lparr>currentSessionThoughts := [[(''thought'', JStr ''old'')]]\<rparr>))))
       = [[(''thought'', JStr ''old'')]]"
  by (simp add: storeSession_def coldGateway_offline)

text \<open>
  C10, as amended. In a call of \<^verbatim>\<open>storeSession\<close> whose bucket cannot be initialised, the
  failure is raised, nothing is written and the gateway, the pending thoughts included,
  is left as it was. In every call in which the bucket is or becomes resolved,
  \<^verbatim>\<open>storeSession\<close> does the same whatever thoughts were pending before; what it writes is
  the serialization of the incoming batch alone; after an accepted write the buffer is
  empty and \<^verbatim>\<open>pendingThoughts\<close> is 0; after a write that is rejected or times out the
  buffer holds the incoming batch as enhanced.
\<close>

theorem storeSession_replaces_buffer:
  "(\<forall>e g1. ensureInitialized w g = (Inl e, g1) \<longrightarrow>
      storeSession w thoughts queryInfo g = (Inl e, g, []))
   \<and> (\<forall>u g1. ensureInitialized w g = (Inr u, g1) \<longrightarrow>
         storeSession w thoughts queryInfo (g\<lparr>currentSessionThoughts := previous\<rparr>)
           = storeSession w thoughts queryInfo g
         \<and> snd (snd (storeSession w thoughts queryInfo g))
             = (if thoughts = [] then []
                else [(bucketAddress g1,
                       logPrefix g @ showNat (clock w (2 * length thoughts)) @ ''-session.jsonl'',
                       jsonl (mapIndexed (enhancedThought w queryInfo) thoughts))])
         \<and> ((\<exists>receipt. bucketAdd w (bucketAddress g1)
                 (logPrefix g @ showNat (clock w (2 * length thoughts)) @ ''-session.jsonl'')
                 (jsonl (mapIndexed (enhancedThought w queryInfo) thoughts)) = Resolves receipt)
              \<longrightarrow> currentSessionThoughts (fst (snd (storeSession w thoughts queryInfo g))) = []
                  \<and> pendingThoughts (getStatusInfo (fst (snd (storeSession w thoughts queryInfo g))))
                      = 0)
         \<and> (thoughts \<noteq> []
              \<and> (bucketAdd w (bucketAddress g1)
                    (logPrefix g @ showNat (clock w (2 * length thoughts)) @ ''-session.jsonl'')
                    (jsonl (mapIndexed (enhancedThought w queryInfo) thoughts)) = Pending
                  \<or> (\<exists>e. bucketAdd w (bucketAddress g1)
                        (logPrefix g @ showNat (clock w (2 * length thoughts)) @ ''-session.jsonl'')
                        (jsonl (mapIndexed (enhancedThought w queryInfo) thoughts)) = Rejects e))
              \<longrightarrow> currentSessionThoughts (fst (snd (storeSession w thoughts queryInfo g)))
                    = mapIndexed (enhancedThought w queryInfo) thoughts))"
proof (intro conjI allI impI)
  fix e g1 assume "ensureInitialized w g = (Inl e, g1)"
  then show "storeSession w thoughts queryInfo g = (Inl e, g, [])"
    using ensureInitialized_fails [of w g e g1] by (simp add: storeSession_def)
next
  fix u g1 assume ready: "ensureInitialized w g = (Inr u, g1)"
  have prev: "ensureInitialized w (g\<lparr>currentSessionThoughts := previous\<rparr>)
                = (Inr (), g1\<lparr>currentSessionThoughts := previous\<rparr>)"
    by (rule ensureInitialized_buffer [OF ready])
  show "storeSession w thoughts queryInfo (g\<lparr>currentSessionThoughts := previous\<rparr>)
          = storeSession w thoughts queryInfo g"
    unfolding storeSession_ready [OF prev] storeSession_ready [OF ready]
    by (simp split: promise.splits)
  show "snd (snd (storeSession w thoughts queryInfo g))
             = (if thoughts = [] then []
                else [(bucketAddress g1,
                       logPrefix g @ showNat (clock w (2 * length thoughts)) @ ''-session.jsonl'',
                       jsonl (mapIndexed (enhancedThought w queryInfo) thoughts))])"
    unfolding storeSession_ready [OF ready] by (simp split: promise.splits)
  {
    assume "\<exists>receipt. bucketAdd w (bucketAddress g1)
                 (logPrefix g @ showNat (clock w (2 * length thoughts)) @ ''-session.jsonl'')
                 (jsonl (mapIndexed (enhancedThought w queryInfo) thoughts)) = Resolves receipt"
    then have both: "currentSessionThoughts (fst (snd (storeSession w thoughts queryInfo g))) = []
                  \<and> pendingThoughts (getStatusInfo (fst (snd (storeSession w thoughts queryInfo g))))
                      = 0"
      unfolding storeSession_ready [OF ready] by (auto simp: getStatusInfo_def)
    from both show "currentSessionThoughts (fst (snd (storeSession w thoughts queryInfo g))) = []"
      by simp
    from both show "pendingThoughts (getStatusInfo (fst (snd (storeSession w thoughts queryInfo g))))
                      = 0"
      by simp
  }
  {
    assume "thoughts \<noteq> []
              \<and> (bucketAdd w (bucketAddress g1)
                    (logPrefix g @ showNat (clock w (2 * length thoughts)) @ ''-session.jsonl'')
                    (jsonl (mapIndexed (enhancedThought w queryInfo) thoughts)) = Pending
                  \<or> (\<exists>e. bucketAdd w (bucketAddress g1)
                        (logPrefix g @ showNat (clock w (2 * length thoughts)) @ ''-session.jsonl'')
                        (jsonl (mapIndexed (enhancedThought w queryInfo) thoughts)) = Rejects e))"
    then show "currentSessionThoughts (fst (snd (storeSession w thoughts queryInfo g)))
                    = mapIndexed (enhancedThought w queryInfo) thoughts"
      unfolding storeSession_ready [OF ready] by auto
  }
qed

theorem storeSession_replaces_buffer_witness:
  "currentSessionThoughts (fst (snd (storeSession stalledWorld [[(''thought'', JStr ''A'')]] JUndefined
       (exampleGateway\<lparr>currentSessionThoughts := [[(''thought'', JStr ''old'')]]\<rparr>))))
     = [[(''thought'', JStr ''A''), (''timestamp'', JNum 1000),
         (''storedAt'', JStr ''2023-11-14T22:13:20.000Z''),
         (''query'', JUndefined), (''result'', JUndefined)]]
   \<and> currentSessionThoughts (fst (snd (storeSession exampleWorld [[(''thought'', JStr ''A'')]] JUndefined
       (exampleGateway\<lparr>currentSessionThoughts := [[(''thought'', JStr ''old'')]]\<rparr>))))
     = []
   \<and> storeSession hangingWorld [[(''thought'', JStr ''A'')]] JUndefined
       (coldGateway\<lparr>currentSessionThoughts := [[(''thought'', JStr ''old'')]]\<rparr>)
     = (Inl (Error ''Bucket initialization operation timed out after 15000ms''),
        coldGateway\<lparr>currentSessionThoughts := [[(''thought'', JStr ''old'')]]\<rparr>, [])"
proof -
  have p: "bucketAdd stalledWorld b kk d = Pending"
          "bucketAdd exampleWorld b kk d = Resolves (Some ''0xfeed'')" for b kk d
    by (simp_all add: stalledWorld_def exampleWorld_def)
  have e: "mapIndexed (enhancedThought stalledWorld JUndefined) [[(''thought'', JStr ''A'')]]
             = [[(''thought'', JStr ''A''), (''timestamp'', JNum 1000),
                 (''storedAt'', JStr ''2023-11-14T22:13:20.000Z''),
                 (''query'', JUndefined), (''result'', JUndefined)]]"
    by (simp add: mapIndexed_single enhancedThought_def Let_def orElse_def optMember_def
                  stalledWorld_def exampleWorld_def)
  have h: "ensureInitialized hangingWorld
             (coldGateway\<lparr>currentSessionThoughts := [[(''thought'', JStr ''old'')]]\<rparr>)
           = (Inl (Error ''Bucket initialization operation timed out after 15000ms''),
              coldGateway\<lparr>currentSessionThoughts := [[(''thought'', JStr ''old'')]]\<rparr>)"
    by (simp add: ensureInitialized_def initializeBucket_def withTimeout_def
                  getOrCreateBucket_def hangingWorld_def exampleWorld_def coldGateway_def
                  exampleGateway_def showNat_eval)
  from storeSession_replaces_buffer [of stalledWorld exampleGateway
         "[[(''thought'', JStr ''A'')]]" JUndefined "[[(''thought'', JStr ''old'')]]"]
       exampleGateway_ready [of stalledWorld]
  have a: "currentSessionThoughts (fst (snd (storeSession stalledWorld [[(''thought'', JStr ''A'')]]
             JUndefined (exampleGateway\<lparr>currentSessionThoughts := [[(''thought'', JStr ''old'')]]\<rparr>))))
           = [[(''thought'', JStr ''A''), (''timestamp'', JNum 1000),
               (''storedAt'', JStr ''2023-11-14T22:13:20.000Z''),
               (''query'', JUndefined), (''result'', JUndefined)]]"
    unfolding p e by simp
  from storeSession_replaces_buffer [of exampleWorld exampleGateway
         "[[(''thought'', JStr ''A'')]]" JUndefined "[[(''thought'', JStr ''old'')]]"]
       exampleGateway_ready [of exampleWorld]
  have b: "currentSessionThoughts (fst (snd (storeSession exampleWorld [[(''thought'', JStr ''A'')]]
             JUndefined (exampleGateway\<lparr>currentSessionThoughts := [[(''thought'', JStr ''old'')]]\<rparr>))))
           = []"
    unfolding p by simp
  from storeSession_replaces_buffer [of hangingWorld
         "coldGateway\<lparr>currentSessionThoughts := [[(''thought'', JStr ''old'')]]\<rparr>"
         "[[(''thought'', JStr ''A'')]]" JUndefined "[]"] h
  have c: "storeSession hangingWorld [[(''thought'', JStr ''A'')]] JUndefined
             (coldGateway\<lparr>currentSessionThoughts := [[(''thought'', JStr ''old'')]]\<rparr>)
           = (Inl (Error ''Bucket initialization operation timed out after 15000ms''),
              coldGateway\<lparr>currentSessionThoughts := [[(''thought'', JStr ''old'')]]\<rparr>, [])"
    by simp
  from a b c show ?thesis by simp
qed

subsection \<open>Listing and retrieving\<close>

lemma listAllSessionObjects_ready:
  assumes "ensureInitialized w g = (Inr u, g1)"
  shows "listAllSessionObjects w g =
     (case bucketQuery w (bucketAddress g1) of
        Inl e \<Rightarrow> (Inr [], g1)
      | Inr None \<Rightarrow> (Inr [], g1)
      | Inr (Some objects) \<Rightarrow>
          (Inr (map (toRecallObject (logPrefix g))
                    (filter (\<lambda>ob. strIncludes (okey ob) (logPrefix g)) objects)), g1))"
proof -
  have key: "objKey (toRecallObject p ob) = okey ob" for p ob
    by (simp add: toRecallObject_def Let_def)
  have "filter (\<lambda>ob. strIncludes (objKey ob) p) (map (toRecallObject p) objects)
          = map (toRecallObject p) (filter (\<lambda>ob. strIncludes (okey ob) p) objects)" for p objects
    by (simp add: filter_map comp_def key)
  then show ?thesis
    using ensureInitialized_frame [OF assms]
    by (simp add: listAllSessionObjects_def assms split: sum.splits option.splits)
qed

lemma toRecallObject_timestamp:
  assumes "strIncludes (okey ob) prefix" and "matchEpoch (okey ob) = Some digits"
  shows "metadataProp (toRecallObject prefix ob) ''timestamp'' = JNum (parseInt digits)"
  using assms
  by (simp add: toRecallObject_def metadataProp_def Let_def getProp_setProp_same
           del: getProp.simps)

text \<open>
  C7, as amended. With the bucket resolved, listing never raises: on a query error (or a
  result without objects) it returns the empty list; otherwise it returns, in order,
  exactly the objects whose key contains the log prefix, each under its own key; and for
  each of them whose key has a segment \<^verbatim>\<open>-digits-\<close> the metadata's time stamp is the number
  in the first such segment, whether or not the object's metadata carried a time stamp,
  while without such a segment the metadata is the copy of the object's own.
\<close>

theorem listAllSessionObjects_filters_and_stamps:
  assumes "ensureInitialized w g = (Inr u, g1)"
  shows "(\<exists>listed. fst (listAllSessionObjects w g) = Inr listed)
         \<and> ((\<exists>e. bucketQuery w (bucketAddress g1) = Inl e)
              \<longrightarrow> fst (listAllSessionObjects w g) = Inr [])
         \<and> (\<forall>objects. bucketQuery w (bucketAddress g1) = Inr (Some objects) \<longrightarrow>
               fst (listAllSessionObjects w g)
                 = Inr (map (toRecallObject (logPrefix g))
                            (filter (\<lambda>ob. strIncludes (okey ob) (logPrefix g)) objects))
               \<and> (\<forall>ob \<in> set objects.
                     objKey (toRecallObject (logPrefix g) ob) = okey ob
                     \<and> (strIncludes (okey ob) (logPrefix g) \<longrightarrow>
                          (case matchEpoch (okey ob) of
                             Some digits \<Rightarrow>
                               metadataProp (toRecallObject (logPrefix g) ob) ''timestamp''
                                 = JNum (parseInt digits)
                           | None \<Rightarrow>
                               objMetadata (toRecallObject (logPrefix g) ob)
                                 = Some (case ostate ob of
                                           None \<Rightarrow> []
                                         | Some st \<Rightarrow>
                                             (case stMetadata st of
                                                None \<Rightarrow> []
                                              | Some m \<Rightarrow> objectAssign [] m))))))"
proof -
  have stamp: "strIncludes (okey ob) p \<Longrightarrow>
                 (case matchEpoch (okey ob) of
                    Some digits \<Rightarrow> metadataProp (toRecallObject p ob) ''timestamp'' = JNum (parseInt digits)
                  | None \<Rightarrow> objMetadata (toRecallObject p ob)
                              = Some (case ostate ob of
                                        None \<Rightarrow> []
                                      | Some st \<Rightarrow>
                                          (case stMetadata st of
                                             None \<Rightarrow> []
                                           | Some m \<Rightarrow> objectAssign [] m)))" for p ob
  proof (cases "matchEpoch (okey ob)")
    case None
    then show "strIncludes (okey ob) p \<Longrightarrow> ?thesis"
      by (simp add: toRecallObject_def Let_def)
  next
    case (Some digits)
    then show "strIncludes (okey ob) p \<Longrightarrow> ?thesis"
      by (simp add: toRecallObject_timestamp)
  qed
  have key: "objKey (toRecallObject p ob) = okey ob" for p ob
    by (simp add: toRecallObject_def Let_def)
  show ?thesis
    unfolding listAllSessionObjects_ready [OF assms]
    using stamp key by (auto split: sum.splits option.splits)
qed

theorem listAllSessionObjects_filters_and_stamps_witness:
  "fst (listAllSessionObjects stampedWorld exampleGateway)
     = Inr [toRecallObject ''st-''
              \<lparr> okey = ''st-1700-session.jsonl'',
                ostate = Some \<lparr> stSize = Some 10, stMetadata = Some [(''timestamp'', JNum 5)] \<rparr> \<rparr>]
   \<and> metadataProp (toRecallObject ''st-''
              \<lparr> okey = ''st-1700-session.jsonl'',
                ostate = Some \<lparr> stSize = Some 10, stMetadata = Some [(''timestamp'', JNum 5)] \<rparr> \<rparr>)
          ''timestamp''
     = JNum (parseInt ''1700'')"
proof -
  let ?ob = "\<lparr> okey = ''st-1700-session.jsonl'',
                ostate = Some \<lparr> stSize = Some 10, stMetadata = Some [(''timestamp'', JNum 5)] \<rparr> \<rparr>"
  let ?other = "\<lparr> okey = ''notes.txt'', ostate = None \<rparr>"
  have q: "bucketQuery stampedWorld b = Inr (Some [?ob, ?other])" for b
    by (simp add: stampedWorld_def exampleWorld_def)
  have p: "logPrefix exampleGateway = ''st-''"
    by (simp add: exampleGateway_def)
  have inc: "strIncludes (okey ?ob) ''st-''" "\<not> strIncludes (okey ?other) ''st-''"
    by simp_all
  have m: "matchEpoch (okey ?ob) = Some ''1700''"
    by (simp add: isDigit_def)
  from listAllSessionObjects_filters_and_stamps [OF exampleGateway_ready, of stampedWorld]
  have "fst (listAllSessionObjects stampedWorld exampleGateway)
          = Inr (map (toRecallObject ''st-'')
                     (filter (\<lambda>ob. strIncludes (okey ob) ''st-'') [?ob, ?other]))
        \<and> (strIncludes (okey ?ob) ''st-'' \<longrightarrow>
              (case matchEpoch (okey ?ob) of
                 Some digits \<Rightarrow> metadataProp (toRecallObject ''st-'' ?ob) ''timestamp''
                                  = JNum (parseInt digits)
               | None \<Rightarrow> objMetadata (toRecallObject ''st-'' ?ob)
                           = Some (case ostate ?ob of
                                     None \<Rightarrow> []
                                   | Some st \<Rightarrow>
                                       (case stMetadata st of
                                          None \<Rightarrow> []
                                        | Some m \<Rightarrow> objectAssign [] m))))"
    unfolding q p by simp
  then show ?thesis
    unfolding m using inc by simp
qed

text \<open>
  C7 as stated fails: the listed object's metadata carried the time stamp 5, and the
  listing replaces it by the number in the key.
\<close>

theorem listAllSessionObjects_overrides_timestamp_counterexample:
  "bucketQuery stampedWorld (bucketAddress exampleGateway)
     = Inr (Some [\<lparr> okey = ''st-1700-session.jsonl'',
                    ostate = Some \<lparr> stSize = Some 10,
                                    stMetadata = Some [(''timestamp'', JNum 5)] \<rparr> \<rparr>,
                  \<lparr> okey = ''notes.txt'', ostate = None \<rparr>])
   \<and> fst (listAllSessionObjects stampedWorld exampleGateway)
     = Inr [\<lparr> objKey = ''st-1700-session.jsonl'', objSize = 10,
              objMetadata = Some [(''timestamp'', JNum 1700)] \<rparr>]"
proof -
  have d: "digitVal CHR ''1'' = 1" "digitVal CHR ''7'' = 7" "digitVal CHR ''0'' = 0"
    by (simp_all add: digitVal_def)
  show ?thesis
    unfolding listAllSessionObjects_ready [OF exampleGateway_ready]
    by (simp add: stampedWorld_def exampleWorld_def exampleGateway_def toRecallObject_def
                  Let_def isDigit_def parseInt_def objectAssign_def d)
qed

















subsection \<open>The terminal step\<close>

lemma validateThoughtData_thought_nonempty:
  assumes "validateThoughtData input = Inr d"
  shows "thought d \<noteq> []"
proof -
  from assms obtain t where t: "member input ''thought'' = Inr t" "truthy t" "typeof t = ''string''"
      "thought d = strOf t"
    by (auto simp: validateThoughtData_def split: sum.splits if_splits)
  then show ?thesis by (cases t) auto
qed

lemma appendThought_accepted:
  assumes "appendThought input query s = (Inr v, s1)"
  shows "thoughtHistory s1 = thoughtHistory s @ [v]" and "currentSessionId s1 = currentSessionId s"
    and "thought v \<noteq> []"
proof -
  from assms obtain d where d: "validateThoughtData input = Inr d"
    by (auto simp: appendThought_def split: sum.splits)
  from assms d show "thoughtHistory s1 = thoughtHistory s @ [v]"
    by (auto simp: appendThought_def Let_def split: if_splits sum.splits)
  from assms d show "currentSessionId s1 = currentSessionId s"
    by (auto simp: appendThought_def Let_def split: if_splits sum.splits)
  from assms d validateThoughtData_thought_nonempty [OF d] show "thought v \<noteq> []"
    by (auto simp: appendThought_def Let_def split: if_splits sum.splits)
qed







lemma finishSession_eq:
  assumes "thoughtHistory s \<noteq> []"
  shows "finishSession w s g =
     (case storeSession w (thoughtsToStore s) (sessionQueryInfo s) g of
        (Inl e, g1, puts) \<Rightarrow> (None, s, g1, puts)
      | (Inr None, g1, puts) \<Rightarrow> (None, s, g1, puts)
      | (Inr (Some info), g1, puts) \<Rightarrow>
          (Some info,
           (if success info then clearSession w (2 * length (thoughtHistory s) + 1) s else s),
           g1, puts))"
  using assms
  by (simp add: finishSession_def storeSessionToRecall_def split: prod.splits sum.splits option.splits)


lemma clearSession_eq:
  "clearSession w t s =
     \<lparr> thoughtHistory = [], branches = [], currentQuery = JUndefined,
       currentSessionId = ''session-'' @ showNat (clock w t) @ ''-'' @ showNat (random w) \<rparr>"
  by (cases s) (simp add: clearSession_def generateNewSessionId_def)

lemma processThought_raises:
  assumes "appendThought input query s = (Inr v, s1)" and "formatThought v = Inl e"
  shows "processThought w input query s g = (failed e, s1, g, [])"
  by (simp add: processThought_def processThoughtBody_def assms)

lemma revisionInput_appended:
  "appendThought revisionInput JUndefined sessionAB
     = (Inr revisionThought,
        sessionAB\<lparr>thoughtHistory := thoughtHistory sessionAB @ [revisionThought]\<rparr>)"
  by (simp add: appendThought_def validateThoughtData_def member_def revisionInput_def
                revisionThought_def Let_def)

lemma revisionThought_unformatted:
  "formatThought revisionThought = Inl (TypeError ''Cannot convert object to primitive value'')"
  by (simp add: formatThought_def revisionThought_def)

lemma processThought_unformatted_revision:
  "processThought w revisionInput JUndefined sessionAB exampleGateway
     = (\<lparr> content = Failure ''Cannot convert object to primitive value'', isError = True \<rparr>,
        sessionAB\<lparr>thoughtHistory := thoughtHistory sessionAB @ [revisionThought]\<rparr>,
        exampleGateway, [])"
  using processThought_raises [OF revisionInput_appended revisionThought_unformatted]
  by (simp add: failed_def)

lemma processThought_continuing:
  assumes "appendThought input query s = (Inr v, s1)" and "nextThoughtNeeded v"
  shows "snd (processThought w input query s g) = (s1, g, [])"
  using assms
  by (simp add: processThought_def processThoughtBody_def split: sum.splits)

lemma processThought_terminal:
  assumes "appendThought input query s = (Inr v, s1)" and "\<not> nextThoughtNeeded v"
    and "storeSession w (thoughtsToStore s1) (sessionQueryInfo s1) g = (r, g', puts)"
    and "formatThought v = Inr c"
  shows "snd (processThought w input query s g) =
           ((if (\<exists>info. r = Inr (Some info) \<and> success info)
             then clearSession w (2 * length (thoughtHistory s1) + 1) s1 else s1),
            g', puts)"
proof -
  have ne: "thoughtHistory s1 \<noteq> []"
    using appendThought_accepted(1) [OF assms(1)] by simp
  show ?thesis
    unfolding processThought_def processThoughtBody_def assms(1)
    using assms(2)
    by (auto simp: finishSession_eq [OF ne] assms(3,4) split: sum.splits option.splits)
qed

lemma thoughtsToStore_nonempty:
  "thoughtHistory s \<noteq> [] \<Longrightarrow> thoughtsToStore s \<noteq> []"
  by (simp add: thoughtsToStore_def)

text \<open>
  C1, as amended. For every step with \<^verbatim>\<open>nextThoughtNeeded = false\<close> that is accepted and
  whose box for the log is formatted without an error, processing hands the whole
  session to \<^verbatim>\<open>storeSession\<close> once: the writes issued and the gateway state left are those
  of that one call, and with the bucket resolved that is exactly one write, of the
  serialization of every thought in the history. The in-memory session is
  destroyed (history, branches and query emptied, a newly generated identifier) if and
  only if that store reports success, which with the bucket resolved means that the write
  was accepted; otherwise the session is kept as it is, the terminal step included.
\<close>

theorem processThought_terminal_step:
  assumes "appendThought input query s = (Inr v, s1)" and "\<not> nextThoughtNeeded v"
    and "formatThought v = Inr c"
  shows "snd (snd (snd (processThought w input query s g)))
           = snd (snd (storeSession w (thoughtsToStore s1) (sessionQueryInfo s1) g))
         \<and> fst (snd (snd (processThought w input query s g)))
             = fst (snd (storeSession w (thoughtsToStore s1) (sessionQueryInfo s1) g))
         \<and> fst (snd (processThought w input query s g))
             = (if (\<exists>info. fst (storeSession w (thoughtsToStore s1) (sessionQueryInfo s1) g)
                              = Inr (Some info) \<and> success info)
                then \<lparr> thoughtHistory = [], branches = [], currentQuery = JUndefined,
                       currentSessionId =
                         ''session-'' @ showNat (clock w (2 * length (thoughtHistory s1) + 1))
                           @ ''-'' @ showNat (random w) \<rparr>
                else s1)
         \<and> (\<forall>u g1. ensureInitialized w g = (Inr u, g1) \<longrightarrow>
               snd (snd (snd (processThought w input query s g)))
                 = [(bucketAddress g1,
                     logPrefix g @ showNat (clock w (2 * length (thoughtHistory s1)))
                       @ ''-session.jsonl'',
                     jsonl (mapIndexed (enhancedThought w (sessionQueryInfo s1))
                                       (thoughtsToStore s1)))]
               \<and> ((\<exists>info. fst (storeSession w (thoughtsToStore s1) (sessionQueryInfo s1) g)
                              = Inr (Some info) \<and> success info)
                    \<longleftrightarrow> (\<exists>receipt. bucketAdd w (bucketAddress g1)
                            (logPrefix g @ showNat (clock w (2 * length (thoughtHistory s1)))
                               @ ''-session.jsonl'')
                            (jsonl (mapIndexed (enhancedThought w (sessionQueryInfo s1))
                                               (thoughtsToStore s1)))
                          = Resolves receipt)))"
proof -
  obtain r g' puts where
    st: "storeSession w (thoughtsToStore s1) (sessionQueryInfo s1) g = (r, g', puts)"
    by (cases "storeSession w (thoughtsToStore s1) (sessionQueryInfo s1) g")
  have ne: "thoughtsToStore s1 \<noteq> []"
    using appendThought_accepted(1) [OF assms(1)] by (simp add: thoughtsToStore_nonempty)
  have len: "length (thoughtsToStore s1) = length (thoughtHistory s1)"
    by (simp add: thoughtsToStore_def)
  have ready: "puts = [(bucketAddress g1,
                     logPrefix g @ showNat (clock w (2 * length (thoughtHistory s1)))
                       @ ''-session.jsonl'',
                     jsonl (mapIndexed (enhancedThought w (sessionQueryInfo s1))
                                       (thoughtsToStore s1)))]
               \<and> ((\<exists>info. r = Inr (Some info) \<and> success info)
                    \<longleftrightarrow> (\<exists>receipt. bucketAdd w (bucketAddress g1)
                            (logPrefix g @ showNat (clock w (2 * length (thoughtHistory s1)))
                               @ ''-session.jsonl'')
                            (jsonl (mapIndexed (enhancedThought w (sessionQueryInfo s1))
                                               (thoughtsToStore s1)))
                          = Resolves receipt))"
    if "ensureInitialized w g = (Inr u, g1)" for u g1
    using st ne unfolding storeSession_ready [OF that] len
    by (auto split: promise.splits)
  show ?thesis
    unfolding processThought_terminal [OF assms(1,2) st assms(3)] st
    using ready by (auto simp: clearSession_eq)
qed

lemma appendC:
  "appendThought (stepInput ''C'' 4 3 False) JUndefined sessionAB
     = (Inr (plainThought ''C'' 4 4 False), sessionABC)"
  by (simp add: appendThought_def validateThoughtData_def member_def stepInput_def
                plainThought_def sessionAB_def sessionABC_def Let_def)

lemma terminalC: "\<not> nextThoughtNeeded (plainThought ''C'' 4 4 False)"
  by (simp add: plainThought_def)

lemma formatC: "formatThought (plainThought ''C'' 4 4 False) = Inr []"
  by (simp add: formatThought_def plainThought_def)

theorem processThought_terminal_step_witness:
  "fst (snd (processThought exampleWorld (stepInput ''C'' 4 3 False) JUndefined sessionAB
               exampleGateway))
     = \<lparr> thoughtHistory = [], branches = [], currentQuery = JUndefined,
         currentSessionId = ''session-1007-42'' \<rparr>
   \<and> length (snd (snd (snd (processThought exampleWorld (stepInput ''C'' 4 3 False) JUndefined
                              sessionAB exampleGateway)))) = 1"
proof -
  note T = processThought_terminal_step [OF appendC terminalC formatC, of exampleWorld
             exampleGateway]
  have add: "bucketAdd exampleWorld b k d = Resolves (Some ''0xfeed'')" for b k d
    by (simp add: exampleWorld_def)
  have id: "''session-'' @ showNat (clock exampleWorld (2 * length (thoughtHistory sessionABC) + 1))
              @ ''-'' @ showNat (random exampleWorld)
              = ''session-1007-42''"
    by (simp add: exampleWorld_def sessionABC_def showNat_eval)
  from T exampleGateway_ready [of exampleWorld]
  have R: "snd (snd (snd (processThought exampleWorld (stepInput ''C'' 4 3 False) JUndefined
                            sessionAB exampleGateway)))
             = [(bucketAddress exampleGateway,
                 logPrefix exampleGateway
                   @ showNat (clock exampleWorld (2 * length (thoughtHistory sessionABC)))
                   @ ''-session.jsonl'',
                 jsonl (mapIndexed (enhancedThought exampleWorld (sessionQueryInfo sessionABC))
                                   (thoughtsToStore sessionABC)))]"
    and S: "\<exists>info. fst (storeSession exampleWorld (thoughtsToStore sessionABC)
                           (sessionQueryInfo sessionABC) exampleGateway) = Inr (Some info)
                  \<and> success info"
    unfolding add by blast+
  from T S have "fst (snd (processThought exampleWorld (stepInput ''C'' 4 3 False) JUndefined
                            sessionAB exampleGateway))
      = \<lparr> thoughtHistory = [], branches = [], currentQuery = JUndefined,
          currentSessionId =
            ''session-'' @ showNat (clock exampleWorld (2 * length (thoughtHistory sessionABC) + 1))
              @ ''-'' @ showNat (random exampleWorld) \<rparr>"
    by presburger
  then show ?thesis
    unfolding id R by simp
qed

text \<open>
  C1 as stated fails: the write of the terminal step never settles, the store reports
  failure, and the session keeps its three thoughts and its identifier.
\<close>

theorem processThought_keeps_session_counterexample:
  "\<not> nextThoughtNeeded (plainThought ''C'' 4 4 False)
   \<and> fst (snd (processThought stalledWorld (stepInput ''C'' 4 3 False) JUndefined sessionAB
                  exampleGateway))
       = \<lparr> thoughtHistory = [plainThought ''A'' 1 3 True, plainThought ''B'' 2 3 True,
                             plainThought ''C'' 4 4 False],
           branches = [], currentQuery = JUndefined, currentSessionId = ''session-999-7'' \<rparr>"
proof -
  have add: "bucketAdd stalledWorld b k d = Pending" for b k d
    by (simp add: stalledWorld_def exampleWorld_def)
  have ne: "thoughtsToStore sessionABC \<noteq> []"
    by (simp add: thoughtsToStore_def sessionABC_def)
  obtain r g' puts where
    st: "storeSession stalledWorld (thoughtsToStore sessionABC) (sessionQueryInfo sessionABC)
           exampleGateway = (r, g', puts)"
    and r: "\<not> (\<exists>info. r = Inr (Some info) \<and> success info)"
    unfolding storeSession_ready [OF exampleGateway_ready] add
    using ne by simp
  show ?thesis
    unfolding processThought_terminal [OF appendC terminalC st formatC]
    using r terminalC by (auto simp: sessionABC_def)
qed






subsection \<open>The dispatcher\<close>























end
